theory Spec2Isabelle
  imports Complex_Main
begin

section \<open>Conventions of the embedding\<close>

text \<open>
  The program is a Python grid-trading bot. Python floats are modelled as exact reals
  (rounding of IEEE arithmetic is abstracted), wall-clock readings (\<open>datetime.now()\<close>,
  \<open>time.time()\<close>) are explicit arguments in seconds, and logging is dropped.
  Python's truthiness tests on optional numbers (\<open>if x:\<close>, \<open>x or y\<close>) are written out:
  \<open>None\<close> and \<open>0.0\<close> are both false.
\<close>

datatype py_error = ZeroDivisionError

definition truthy :: "real option \<Rightarrow> bool" where
  "truthy v = (case v of None \<Rightarrow> False | Some x \<Rightarrow> x \<noteq> 0)"

definition or_else :: "real option \<Rightarrow> real \<Rightarrow> real" where
  "or_else v d = (case v of None \<Rightarrow> d | Some x \<Rightarrow> if x \<noteq> 0 then x else d)"

section \<open>Extreme-market protection (extreme\_market\_protection.py)\<close>

subsection \<open>Data\<close>

datatype direction = Up | Down | Neutral

record kline_data =
  k_timestamp :: real
  open_price :: real
  high_price :: real
  low_price :: real
  close_price :: real
  volume :: real
  k_direction :: direction
  change_percent :: real

record market_state =
  ms_timestamp :: real
  price :: real
  trend_start_price :: real
  trend_start_time :: real
  trend_direction :: direction
  trend_magnitude :: real
  consecutive_klines :: int
  atr_value :: real
  is_extreme :: bool
  protection_triggered :: bool

record protection_config =
  extreme_threshold :: real
  hibernation_hours :: real
  atr_recovery_multiplier :: real
  trend_detection_window :: nat
  min_trend_duration :: real
  emergency_close_timeout :: nat

definition default_protection_config :: protection_config where
  "default_protection_config =
     \<lparr>extreme_threshold = 11, hibernation_hours = 24, atr_recovery_multiplier = 3 / 2,
      trend_detection_window = 20, min_trend_duration = 3, emergency_close_timeout = 30\<rparr>"

text \<open>What \<open>_save_state\<close> writes to the state file (\<open>last_update\<close> is the clock).\<close>

record persisted =
  p_protection_active :: bool
  p_hibernation_start_time :: "real option"
  p_baseline_atr :: "real option"
  p_consecutive_trend_direction :: direction
  p_consecutive_kline_count :: int
  p_cumulative_change_percent :: real
  p_consecutive_trend_start_time :: "real option"
  p_consecutive_trend_start_price :: "real option"
  p_last_update :: real

text \<open>
  The fields of \<open>ExtremeMarketProtection\<close>. \<open>state_file_writes\<close> is the effect of
  \<open>_save_state\<close>: every snapshot handed to the state file, oldest first.
\<close>

record protection =
  config :: protection_config
  kline_buffer :: "kline_data list"
  max_kline_buffer_size :: nat
  price_buffer :: "(real \<times> real) list"
  max_buffer_size :: nat
  consecutive_trend_start_price :: "real option"
  consecutive_trend_start_time :: "real option"
  consecutive_trend_direction :: direction
  consecutive_kline_count :: int
  cumulative_change_percent :: real
  current_trend_start_price :: "real option"
  current_trend_start_time :: "real option"
  current_trend_direction :: direction
  protection_active :: bool
  hibernation_start_time :: "real option"
  last_atr_values :: "real list"
  baseline_atr :: "real option"
  state_file_writes :: "persisted list"

definition init_protection :: "protection_config \<Rightarrow> protection" where
  "init_protection c =
     \<lparr>config = c, kline_buffer = [], max_kline_buffer_size = 168, price_buffer = [],
      max_buffer_size = 100, consecutive_trend_start_price = None,
      consecutive_trend_start_time = None, consecutive_trend_direction = Neutral,
      consecutive_kline_count = 0, cumulative_change_percent = 0,
      current_trend_start_price = None, current_trend_start_time = None,
      current_trend_direction = Neutral, protection_active = False,
      hibernation_start_time = None, last_atr_values = [], baseline_atr = None,
      state_file_writes = []\<rparr>"

definition save_state :: "protection \<Rightarrow> real \<Rightarrow> protection" where
  "save_state s now =
     s\<lparr>state_file_writes := state_file_writes s @
        [\<lparr>p_protection_active = protection_active s,
          p_hibernation_start_time = hibernation_start_time s,
          p_baseline_atr = baseline_atr s,
          p_consecutive_trend_direction = consecutive_trend_direction s,
          p_consecutive_kline_count = consecutive_kline_count s,
          p_cumulative_change_percent = cumulative_change_percent s,
          p_consecutive_trend_start_time = consecutive_trend_start_time s,
          p_consecutive_trend_start_price = consecutive_trend_start_price s,
          p_last_update = now\<rparr>]\<rparr>"

subsection \<open>Run detection\<close>

definition reset_consecutive_trend :: "protection \<Rightarrow> protection" where
  "reset_consecutive_trend s =
     s\<lparr>consecutive_trend_direction := Neutral,
       consecutive_trend_start_price := None,
       consecutive_trend_start_time := None,
       consecutive_kline_count := 0,
       cumulative_change_percent := 0\<rparr>"

definition detect_consecutive_trend :: "protection \<Rightarrow> kline_data \<Rightarrow> protection" where
  "detect_consecutive_trend s k =
     (let current_direction = k_direction k in
      if current_direction = consecutive_trend_direction s \<and> current_direction \<noteq> Neutral then
        (let s1 = s\<lparr>consecutive_kline_count := consecutive_kline_count s + 1\<rparr> in
         if truthy (consecutive_trend_start_price s1) then
           (let p0 = the (consecutive_trend_start_price s1);
                c = ((close_price k - p0) / p0) * 100
            in s1\<lparr>cumulative_change_percent :=
                    (if consecutive_trend_direction s1 = Down then \<bar>c\<bar> else c)\<rparr>)
         else s1)
      else if current_direction \<noteq> Neutral \<and> current_direction \<noteq> consecutive_trend_direction s then
        s\<lparr>consecutive_trend_direction := current_direction,
          consecutive_trend_start_price := Some (open_price k),
          consecutive_trend_start_time := Some (k_timestamp k),
          consecutive_kline_count := 1,
          cumulative_change_percent := \<bar>change_percent k\<bar>\<rparr>
      else if current_direction = Neutral then reset_consecutive_trend s
      else s)"

subsection \<open>Volatility (ATR)\<close>

text \<open>
  \<open>price_buffer[-i]\<close> is element \<open>i - 1\<close> of the reversed buffer; the loop runs over
  \<open>range(1, min(len, period + 1))\<close>, so every index is in range.
\<close>

definition calculate_atr :: "protection \<Rightarrow> nat \<Rightarrow> real \<times> protection" where
  "calculate_atr s period =
     (let n = length (price_buffer s) in
      if n < period + 1 then (0, s)
      else
        (let rp = rev (map snd (price_buffer s));
             true_ranges = map (\<lambda>i. \<bar>rp ! (i - 1) - rp ! i\<bar>) [1 ..< min n (period + 1)]
         in if true_ranges \<noteq> [] then
              (let atr = sum_list true_ranges / real (length true_ranges);
                   vals = last_atr_values s @ [atr];
                   vals' = (if length vals > 50 then tl vals else vals);
                   base = (if baseline_atr s = None \<and> length vals' \<ge> 20
                           then Some (sum_list vals' / real (length vals'))
                           else baseline_atr s)
               in (atr, s\<lparr>last_atr_values := vals', baseline_atr := base\<rparr>))
            else (0, s)))"

definition is_atr_recovered :: "protection \<Rightarrow> real \<Rightarrow> bool" where
  "is_atr_recovered s current_atr =
     (if \<not> truthy (baseline_atr s) \<or> current_atr \<le> 0 then False
      else
        (let recovery_threshold = the (baseline_atr s) * atr_recovery_multiplier (config s)
         in current_atr \<le> recovery_threshold))"

subsection \<open>Bar update\<close>

definition push_bounded :: "'a list \<Rightarrow> 'a \<Rightarrow> nat \<Rightarrow> 'a list" where
  "push_bounded xs x bound = (let ys = xs @ [x] in if length ys > bound then tl ys else ys)"

definition update_kline_data ::
  "protection \<Rightarrow> real \<Rightarrow> real \<Rightarrow> real \<Rightarrow> real \<Rightarrow> real \<Rightarrow> real option \<Rightarrow> real
     \<Rightarrow> py_error + (market_state \<times> protection)" where
  "update_kline_data s open_p high_p low_p close_p vol timestamp now =
     (let current_time = (case timestamp of Some t \<Rightarrow> t | None \<Rightarrow> now) in
      if open_p = 0 then Inl ZeroDivisionError
      else
        (let chg = ((close_p - open_p) / open_p) * 100;
             dir = (if chg > 1 / 10 then Up else if chg < - (1 / 10) then Down else Neutral);
             k = \<lparr>k_timestamp = current_time, open_price = open_p, high_price = high_p,
                  low_price = low_p, close_price = close_p, volume = vol,
                  k_direction = dir, change_percent = chg\<rparr>;
             s1 = s\<lparr>kline_buffer := push_bounded (kline_buffer s) k (max_kline_buffer_size s)\<rparr>;
             s2 = detect_consecutive_trend s1 k;
             s3 = s2\<lparr>price_buffer :=
                       push_bounded (price_buffer s2) (current_time, close_p) (max_buffer_size s2)\<rparr>;
             (atr, s4) = calculate_atr s3 14;
             ext = (\<bar>cumulative_change_percent s4\<bar> \<ge> extreme_threshold (config s4));
             ms = \<lparr>ms_timestamp = current_time, price = close_p,
                   trend_start_price = or_else (consecutive_trend_start_price s4) close_p,
                   trend_start_time =
                     (case consecutive_trend_start_time s4 of Some t \<Rightarrow> t | None \<Rightarrow> current_time),
                   trend_direction = consecutive_trend_direction s4,
                   trend_magnitude = cumulative_change_percent s4,
                   consecutive_klines = consecutive_kline_count s4,
                   atr_value = atr, is_extreme = ext,
                   protection_triggered = protection_active s4\<rparr>
         in Inr (ms, s4)))"

subsection \<open>End of hibernation\<close>

definition check_hibernation_end :: "protection \<Rightarrow> market_state \<Rightarrow> real \<Rightarrow> bool \<times> protection" where
  "check_hibernation_end s ms now =
     (case hibernation_start_time s of
        None \<Rightarrow> (False, s)
      | Some start \<Rightarrow>
          (let elapsed_hours = (now - start) / 3600 in
           if elapsed_hours < hibernation_hours (config s) then (False, s)
           else if is_atr_recovered s (atr_value ms) then
             (True, save_state (s\<lparr>protection_active := False, hibernation_start_time := None\<rparr>) now)
           else (False, s)))"

subsection \<open>The exchange seen by the protection module\<close>

text \<open>
  \<open>ExtremeMarketProtection\<close> talks to \<open>self.exchange\<close>, an object the class never
  constructs; it is a parameter here. Each method is a transition of an abstract exchange
  state \<open>'x\<close> that either raises (\<open>Inl\<close>) or returns (\<open>Inr\<close>), so the model covers
  every behaviour of the exchange, including one that raises on every call (which is what
  an unset attribute does).
\<close>

datatype exn = CcxtError | OtherException

type_synonym order_id = string

datatype order_side = Buy | Sell

datatype pside = Long | Short

datatype order_type = Limit | Market

datatype order_status = Filled | Canceled | Rejected | Pending

record close_order =
  c_side :: order_side
  c_price :: real
  c_quantity :: real
  c_reduce_only :: bool
  c_position_side :: pside
  c_order_type :: order_type

text \<open>
  \<open>get_open_orders\<close> returns the ids of the open orders; \<open>ex_get_position\<close> returns
  \<open>None\<close> for a falsy answer and otherwise the pair \<open>(positions.get('long', 0),
  positions.get('short', 0))\<close>; \<open>ex_place_order\<close> returns \<open>None\<close> for a falsy
  order result and otherwise \<open>order_result.get('id')\<close>; \<open>get_order_status\<close> returns the
  \<open>status\<close> entry (\<open>Pending\<close> for any other value) or \<open>None\<close> for a falsy answer.
\<close>

record 'x protection_exchange =
  get_open_orders :: "'x \<Rightarrow> (exn + order_id list) \<times> 'x"
  ex_cancel_order :: "order_id \<Rightarrow> 'x \<Rightarrow> (exn + unit) \<times> 'x"
  ex_get_position :: "'x \<Rightarrow> (exn + (real \<times> real) option) \<times> 'x"
  ex_place_order :: "close_order \<Rightarrow> 'x \<Rightarrow> (exn + order_id option option) \<times> 'x"
  get_order_status :: "order_id option \<Rightarrow> 'x \<Rightarrow> (exn + order_status option) \<times> 'x"

subsection \<open>Emergency sequence\<close>

definition cancel_single_order :: "'x protection_exchange \<Rightarrow> order_id \<Rightarrow> 'x \<Rightarrow> bool \<times> 'x" where
  "cancel_single_order ex i x =
     (case ex_cancel_order ex i x of (Inl e, x') \<Rightarrow> (False, x') | (Inr u, x') \<Rightarrow> (True, x'))"

text \<open>
  The cancellation tasks contain no suspension point, so \<open>asyncio.gather\<close> runs them one
  after the other in list order.
\<close>

fun cancel_each :: "'x protection_exchange \<Rightarrow> order_id list \<Rightarrow> 'x \<Rightarrow> bool list \<times> 'x" where
  "cancel_each ex [] x = ([], x)"
| "cancel_each ex (i # rest) x =
     (case cancel_single_order ex i x of
        (r, x1) \<Rightarrow> (case cancel_each ex rest x1 of (rs, x2) \<Rightarrow> (r # rs, x2)))"

definition cancel_all_orders :: "'x protection_exchange \<Rightarrow> 'x \<Rightarrow> bool \<times> 'x" where
  "cancel_all_orders ex x =
     (case get_open_orders ex x of
        (Inl e, x1) \<Rightarrow> (False, x1)
      | (Inr open_orders, x1) \<Rightarrow>
          if open_orders = [] then (True, x1)
          else (case cancel_each ex open_orders x1 of
                  (results, x2) \<Rightarrow>
                    (length (filter (\<lambda>r. r) results) = length open_orders, x2)))"

text \<open>
  The fill wait polls once per second until \<open>timeout\<close> seconds have passed; \<open>elapsed\<close>
  counts the one-second sleeps (the latency of the status call itself is not counted).
\<close>

function wait_for_order_fill ::
  "'x protection_exchange \<Rightarrow> order_id option \<Rightarrow> nat \<Rightarrow> nat \<Rightarrow> 'x \<Rightarrow> bool \<times> 'x" where
  "wait_for_order_fill ex i timeout elapsed x =
     (if elapsed < timeout then
        (case get_order_status ex i x of
           (Inr (Some Filled), x1) \<Rightarrow> (True, x1)
         | (Inr (Some Canceled), x1) \<Rightarrow> (False, x1)
         | (Inr (Some Rejected), x1) \<Rightarrow> (False, x1)
         | (Inr (Some Pending), x1) \<Rightarrow> wait_for_order_fill ex i timeout (Suc elapsed) x1
         | (Inr None, x1) \<Rightarrow> wait_for_order_fill ex i timeout (Suc elapsed) x1
         | (Inl e, x1) \<Rightarrow> wait_for_order_fill ex i timeout (Suc elapsed) x1)
      else (False, x))"
  by pat_completeness auto
termination
  by (relation "measure (\<lambda>(ex, i, timeout, elapsed, x). timeout - elapsed)") auto

definition place_emergency_close_order ::
  "'x protection_exchange \<Rightarrow> protection_config \<Rightarrow> order_side \<Rightarrow> real \<Rightarrow> real \<Rightarrow> pside \<Rightarrow> 'x
     \<Rightarrow> bool \<times> 'x" where
  "place_emergency_close_order ex cfg side quantity p position_side x =
     (let aggressive_price = (if side = Sell then p * (995 / 1000) else p * (1005 / 1000)) in
      case ex_place_order ex
             \<lparr>c_side = side, c_price = aggressive_price, c_quantity = quantity,
              c_reduce_only = True, c_position_side = position_side, c_order_type = Limit\<rparr> x of
        (Inl e, x1) \<Rightarrow> (False, x1)
      | (Inr None, x1) \<Rightarrow> (False, x1)
      | (Inr (Some i), x1) \<Rightarrow>
          (case wait_for_order_fill ex i (emergency_close_timeout cfg) 0 x1 of
             (filled, x2) \<Rightarrow> (True, x2)))"

text \<open>
  The two flatten tasks are modelled in the order they are created (long, then short);
  their interleaving at the one-second sleeps is not modelled.
\<close>

definition emergency_close_all_positions ::
  "'x protection_exchange \<Rightarrow> protection_config \<Rightarrow> real \<Rightarrow> 'x \<Rightarrow> bool \<times> 'x" where
  "emergency_close_all_positions ex cfg current_price x =
     (case ex_get_position ex x of
        (Inl e, x1) \<Rightarrow> (False, x1)
      | (Inr None, x1) \<Rightarrow> (True, x1)
      | (Inr (Some (long_pos, short_pos)), x1) \<Rightarrow>
          (case (if long_pos > 0
                 then (case place_emergency_close_order ex cfg Sell long_pos current_price Long x1 of
                         (r, x') \<Rightarrow> ([r], x'))
                 else ([], x1)) of
             (rl, x2) \<Rightarrow>
               (case (if short_pos > 0
                      then (case place_emergency_close_order ex cfg Buy short_pos current_price Short x2 of
                              (r, x') \<Rightarrow> ([r], x'))
                      else ([], x2)) of
                  (rs, x3) \<Rightarrow>
                    (let results = rl @ rs in
                     if results = [] then (True, x3)
                     else (length (filter (\<lambda>r. r) results) = length results, x3)))))"

definition trigger_emergency_protection ::
  "'x protection_exchange \<Rightarrow> protection \<Rightarrow> market_state \<Rightarrow> real \<Rightarrow> 'x \<Rightarrow> bool \<times> protection \<times> 'x" where
  "trigger_emergency_protection ex s ms now x =
     (case cancel_all_orders ex x of
        (cancel_success, x1) \<Rightarrow>
          (case emergency_close_all_positions ex (config s) (price ms) x1 of
             (close_success, x2) \<Rightarrow>
               if cancel_success \<and> close_success then
                 (True,
                  save_state (s\<lparr>protection_active := True, hibernation_start_time := Some now\<rparr>) now,
                  x2)
               else (False, s, x2)))"

text \<open>
  \<open>market_state.trend_start_time\<close> is always a datetime (\<open>update_kline_data\<close> and
  \<open>update_market_data\<close> fall back to the current time), so the \<open>elif\<close> of the
  real-time branch is always taken when the bar count is not positive.
\<close>

definition check_extreme_protection ::
  "'x protection_exchange \<Rightarrow> protection \<Rightarrow> market_state \<Rightarrow> real \<Rightarrow> 'x \<Rightarrow> bool \<times> protection \<times> 'x" where
  "check_extreme_protection ex s ms now x =
     (if protection_active s then
        (case check_hibernation_end s ms now of (r, s') \<Rightarrow> (r, s', x))
      else if is_extreme ms \<and> \<not> protection_active s then
        (if consecutive_klines ms > 0 then trigger_emergency_protection ex s ms now x
         else
           (let trend_duration = (ms_timestamp ms - trend_start_time ms) / 60 in
            if trend_duration \<ge> min_trend_duration (config s)
            then trigger_emergency_protection ex s ms now x
            else (False, s, x)))
      else (False, s, x))"

section \<open>Configuration (config.py)\<close>

record grid_config =
  COIN_NAME :: string
  CONTRACT_TYPE :: string
  GRID_SPACING :: real
  INITIAL_QUANTITY :: real
  POSITION_THRESHOLD :: real
  POSITION_LIMIT :: real
  ORDER_FIRST_TIME :: real

definition default_config :: grid_config where
  "default_config =
     \<lparr>COIN_NAME = ''XRP'', CONTRACT_TYPE = ''USDC'', GRID_SPACING = 1 / 1000,
      INITIAL_QUANTITY = 3, POSITION_THRESHOLD = 500, POSITION_LIMIT = 200,
      ORDER_FIRST_TIME = 10\<rparr>"

definition get_ccxt_symbol :: "grid_config \<Rightarrow> string" where
  "get_ccxt_symbol cfg = COIN_NAME cfg @ ''/'' @ CONTRACT_TYPE cfg @ '':'' @ CONTRACT_TYPE cfg"

section \<open>Exchange interface (exchange\_interface.py)\<close>

subsection \<open>The ccxt client\<close>

text \<open>
  The ccxt client is an external library. As for the protection module, each of its
  methods is a transition of an abstract exchange state that raises or returns; ccxt's
  own errors (\<open>ccxt.BaseError\<close>) are told apart from any other exception, because the
  interface catches only the former in some places. \<open>sent\<close> records every order request
  handed to \<open>create_order\<close>, oldest first, whether or not the exchange accepted it.
\<close>

datatype position_tag = LONG | SHORT | BOTH

record position_entry =
  pe_symbol :: string
  contracts :: real
  pe_side :: "pside option"

record open_order =
  oid :: order_id
  o_side :: order_side
  o_reduce_only :: bool
  o_position_side :: position_tag
  o_orig_qty :: real
  o_price :: real

record order_request =
  r_type :: order_type
  r_side :: order_side
  r_quantity :: real
  r_price :: "real option"
  r_reduce_only :: bool
  r_position_side :: "position_tag option"

record 'x ccxt =
  fetch_positions :: "'x \<Rightarrow> (exn + position_entry list) \<times> 'x"
  ccxt_fetch_open_orders :: "'x \<Rightarrow> (exn + open_order list) \<times> 'x"
  ccxt_cancel_order :: "order_id \<Rightarrow> 'x \<Rightarrow> (exn + unit) \<times> 'x"
  create_order :: "order_request \<Rightarrow> 'x \<Rightarrow> (exn + order_id) \<times> 'x"

record 'x world =
  ext :: 'x
  sent :: "order_request list"

definition submit :: "'x ccxt \<Rightarrow> order_request \<Rightarrow> 'x world \<Rightarrow> (exn + order_id) \<times> 'x world" where
  "submit gw req w =
     (case create_order gw req (ext w) of
        (r, x') \<Rightarrow> (r, w\<lparr>ext := x', sent := sent w @ [req]\<rparr>))"

subsection \<open>Interface state and rounding\<close>

record exchange_interface =
  websocket_price :: "real option"
  last_valid_price :: "real option"
  last_price_update_time :: real
  price_precision :: nat
  amount_precision :: nat
  min_order_amount :: real

text \<open>Python's \<open>round(x, n)\<close>: to \<open>n\<close> decimals, ties to the even neighbour.\<close>

definition round_half_even :: "real \<Rightarrow> int" where
  "round_half_even r =
     (let f = \<lfloor>r\<rfloor>; d = r - of_int f in
      if d < 1 / 2 then f else if d > 1 / 2 then f + 1 else if even f then f else f + 1)"

definition py_round :: "real \<Rightarrow> nat \<Rightarrow> real" where
  "py_round x n = of_int (round_half_even (x * 10 ^ n)) / 10 ^ n"

definition upper :: "pside \<Rightarrow> position_tag" where
  "upper ps = (case ps of Long \<Rightarrow> LONG | Short \<Rightarrow> SHORT)"

subsection \<open>Methods\<close>

definition step_position :: "grid_config \<Rightarrow> real \<times> real \<Rightarrow> position_entry \<Rightarrow> real \<times> real" where
  "step_position cfg acc p =
     (case acc of
        (long_pos, short_pos) \<Rightarrow>
          if pe_symbol p = get_ccxt_symbol cfg then
            (case pe_side p of
               Some Long \<Rightarrow> (contracts p, short_pos)
             | Some Short \<Rightarrow> (long_pos, \<bar>contracts p\<bar>)
             | None \<Rightarrow> (long_pos, short_pos))
          else (long_pos, short_pos))"

definition get_position :: "'x ccxt \<Rightarrow> grid_config \<Rightarrow> 'x world \<Rightarrow> (real \<times> real) \<times> 'x world" where
  "get_position gw cfg w =
     (case fetch_positions gw (ext w) of
        (Inl e, x') \<Rightarrow> ((0, 0), w\<lparr>ext := x'\<rparr>)
      | (Inr positions, x') \<Rightarrow> (foldl (step_position cfg) (0, 0) positions, w\<lparr>ext := x'\<rparr>))"

definition fetch_open_orders :: "'x ccxt \<Rightarrow> 'x world \<Rightarrow> open_order list \<times> 'x world" where
  "fetch_open_orders gw w =
     (case ccxt_fetch_open_orders gw (ext w) of
        (Inl e, x') \<Rightarrow> ([], w\<lparr>ext := x'\<rparr>)
      | (Inr orders, x') \<Rightarrow> (orders, w\<lparr>ext := x'\<rparr>))"

definition cancel_order :: "'x ccxt \<Rightarrow> order_id \<Rightarrow> 'x world \<Rightarrow> (exn + unit) \<times> 'x world" where
  "cancel_order gw i w =
     (case ccxt_cancel_order gw i (ext w) of
        (Inl CcxtError, x') \<Rightarrow> (Inr (), w\<lparr>ext := x'\<rparr>)
      | (Inl OtherException, x') \<Rightarrow> (Inl OtherException, w\<lparr>ext := x'\<rparr>)
      | (Inr u, x') \<Rightarrow> (Inr (), w\<lparr>ext := x'\<rparr>))"

text \<open>
  \<open>place_order\<close> returns the created order, or \<open>None\<close> after a ccxt error or for a limit
  order without price; any other exception propagates. The trade record it hands to the
  summary module is not modelled.
\<close>

definition place_order ::
  "'x ccxt \<Rightarrow> exchange_interface \<Rightarrow> order_side \<Rightarrow> real option \<Rightarrow> real \<Rightarrow> bool \<Rightarrow> pside option
     \<Rightarrow> order_type \<Rightarrow> 'x world \<Rightarrow> (exn + order_id option) \<times> 'x world" where
  "place_order gw ei side p quantity is_reduce_only position_side otype w =
     (let p' = (case p of None \<Rightarrow> None | Some v \<Rightarrow> Some (py_round v (price_precision ei)));
          q' = max (py_round quantity (amount_precision ei)) (min_order_amount ei);
          tag = (case position_side of None \<Rightarrow> None | Some ps \<Rightarrow> Some (upper ps))
      in if otype \<noteq> Market \<and> p' = None then (Inr None, w)
         else
           (case submit gw
                   \<lparr>r_type = otype, r_side = side, r_quantity = q',
                    r_price = (if otype = Market then None else p'),
                    r_reduce_only = is_reduce_only, r_position_side = tag\<rparr> w of
              (Inl CcxtError, w') \<Rightarrow> (Inr None, w')
            | (Inl OtherException, w') \<Rightarrow> (Inl OtherException, w')
            | (Inr i, w') \<Rightarrow> (Inr (Some i), w')))"

definition closing_side :: "pside \<Rightarrow> order_side" where
  "closing_side ps = (if ps = Long then Sell else Buy)"

definition place_take_profit_order ::
  "'x ccxt \<Rightarrow> exchange_interface \<Rightarrow> pside \<Rightarrow> real \<Rightarrow> real \<Rightarrow> 'x world
     \<Rightarrow> (exn + order_id option) \<times> 'x world" where
  "place_take_profit_order gw ei side p quantity w =
     (case fetch_open_orders gw w of
        (orders, w1) \<Rightarrow>
          if list_ex (\<lambda>ord. o_position_side ord = upper side \<and> o_price ord = p \<and>
                            o_side ord = closing_side side) orders
          then (Inr None, w1)
          else
            (let p' = py_round p (price_precision ei);
                 q' = max (py_round quantity (amount_precision ei)) (min_order_amount ei)
             in case submit gw
                       \<lparr>r_type = Limit, r_side = closing_side side, r_quantity = q',
                        r_price = Some p', r_reduce_only = True,
                        r_position_side = Some (upper side)\<rparr> w1 of
                  (Inl CcxtError, w2) \<Rightarrow> (Inr None, w2)
                | (Inl OtherException, w2) \<Rightarrow> (Inl OtherException, w2)
                | (Inr i, w2) \<Rightarrow> (Inr (Some i), w2)))"

definition validate_price :: "exchange_interface \<Rightarrow> real option \<Rightarrow> bool" where
  "validate_price ei p =
     (case p of
        None \<Rightarrow> False
      | Some v \<Rightarrow>
          if v \<le> 0 then False
          else if truthy (last_valid_price ei)
                  \<and> \<bar>v - the (last_valid_price ei)\<bar> / the (last_valid_price ei) > 1 / 10
          then False
          else True)"

definition update_price_cache :: "exchange_interface \<Rightarrow> real \<Rightarrow> real \<Rightarrow> exchange_interface" where
  "update_price_cache ei p now =
     (if validate_price ei (Some p)
      then ei\<lparr>last_valid_price := Some p, last_price_update_time := now\<rparr> else ei)"

definition update_websocket_price :: "exchange_interface \<Rightarrow> real \<Rightarrow> real \<Rightarrow> exchange_interface" where
  "update_websocket_price ei p now =
     (if validate_price ei (Some p)
      then update_price_cache (ei\<lparr>websocket_price := Some p\<rparr>) p now else ei)"

section \<open>Grid engine (grid\_core.py)\<close>

record grid_core =
  long_initial_quantity :: real
  short_initial_quantity :: real
  long_position :: real
  short_position :: real
  buy_long_orders :: real
  sell_long_orders :: real
  sell_short_orders :: real
  buy_short_orders :: real
  last_long_order_time :: real
  last_short_order_time :: real
  last_position_update_time :: real
  last_orders_update_time :: real
  latest_price :: real
  best_bid_price :: "real option"
  best_ask_price :: "real option"
  mid_price_long :: real
  lower_price_long :: real
  upper_price_long :: real
  mid_price_short :: real
  lower_price_short :: real
  upper_price_short :: real
  long_grid_spacing :: real
  short_grid_spacing :: real
  long_profit_spacing :: real
  short_profit_spacing :: real

definition init_grid_core :: "grid_config \<Rightarrow> grid_core" where
  "init_grid_core cfg =
     \<lparr>long_initial_quantity = 0, short_initial_quantity = 0, long_position = 0,
      short_position = 0, buy_long_orders = 0, sell_long_orders = 0, sell_short_orders = 0,
      buy_short_orders = 0, last_long_order_time = 0, last_short_order_time = 0,
      last_position_update_time = 0, last_orders_update_time = 0, latest_price = 0,
      best_bid_price = None, best_ask_price = None, mid_price_long = 0,
      lower_price_long = 0, upper_price_long = 0, mid_price_short = 0,
      lower_price_short = 0, upper_price_short = 0,
      long_grid_spacing = GRID_SPACING cfg, short_grid_spacing = GRID_SPACING cfg,
      long_profit_spacing = GRID_SPACING cfg, short_profit_spacing = GRID_SPACING cfg\<rparr>"

subsection \<open>Pending-order resync\<close>

text \<open>
  The loop of \<open>check_orders_status\<close> with its four local accumulators, in the order
  (buy-long, sell-long, buy-short, sell-short).
\<close>

fun count_orders ::
  "open_order list \<Rightarrow> real \<times> real \<times> real \<times> real \<Rightarrow> real \<times> real \<times> real \<times> real" where
  "count_orders [] acc = acc"
| "count_orders (ord # rest) (bl, sl, bs, ss) =
     (let orig_quantity = \<bar>o_orig_qty ord\<bar> in
      if o_side ord = Buy \<and> o_position_side ord = LONG
        then count_orders rest (bl + orig_quantity, sl, bs, ss)
      else if o_side ord = Sell \<and> o_position_side ord = LONG
        then count_orders rest (bl, sl + orig_quantity, bs, ss)
      else if o_side ord = Buy \<and> o_position_side ord = SHORT
        then count_orders rest (bl, sl, bs + orig_quantity, ss)
      else if o_side ord = Sell \<and> o_position_side ord = SHORT
        then count_orders rest (bl, sl, bs, ss + orig_quantity)
      else count_orders rest (bl, sl, bs, ss))"

definition check_orders_status :: "'x ccxt \<Rightarrow> grid_core \<Rightarrow> 'x world \<Rightarrow> grid_core \<times> 'x world" where
  "check_orders_status gw g w =
     (case fetch_open_orders gw w of
        (orders, w') \<Rightarrow>
          (case count_orders orders (0, 0, 0, 0) of
             (bl, sl, bs, ss) \<Rightarrow>
               (g\<lparr>buy_long_orders := bl, sell_long_orders := sl,
                  buy_short_orders := bs, sell_short_orders := ss\<rparr>, w')))"

subsection \<open>Cancelling one side\<close>

definition side_order :: "pside \<Rightarrow> open_order \<Rightarrow> bool" where
  "side_order position_side ord =
     (case position_side of
        Long \<Rightarrow>
          (\<not> o_reduce_only ord \<and> o_side ord = Buy \<and> o_position_side ord = LONG) \<or>
          (o_reduce_only ord \<and> o_side ord = Sell \<and> o_position_side ord = LONG)
      | Short \<Rightarrow>
          (\<not> o_reduce_only ord \<and> o_side ord = Sell \<and> o_position_side ord = SHORT) \<or>
          (o_reduce_only ord \<and> o_side ord = Buy \<and> o_position_side ord = SHORT))"

fun cancel_matching ::
  "'x ccxt \<Rightarrow> pside \<Rightarrow> open_order list \<Rightarrow> 'x world \<Rightarrow> (exn + unit) \<times> 'x world" where
  "cancel_matching gw position_side [] w = (Inr (), w)"
| "cancel_matching gw position_side (ord # rest) w =
     (if side_order position_side ord then
        (case cancel_order gw (oid ord) w of
           (Inl e, w') \<Rightarrow> (Inl e, w')
         | (Inr u, w') \<Rightarrow> cancel_matching gw position_side rest w')
      else cancel_matching gw position_side rest w)"

definition cancel_orders_for_side ::
  "'x ccxt \<Rightarrow> grid_core \<Rightarrow> pside \<Rightarrow> 'x world \<Rightarrow> grid_core \<times> 'x world" where
  "cancel_orders_for_side gw g position_side w =
     (case fetch_open_orders gw w of
        (orders, w1) \<Rightarrow>
          if length orders = 0 then (g, w1)
          else
            (case cancel_matching gw position_side orders w1 of
               (Inl e, w2) \<Rightarrow> check_orders_status gw g w2
             | (Inr u, w2) \<Rightarrow> (g, w2)))"

subsection \<open>Grid bounds and order size\<close>

definition update_mid_price :: "grid_core \<Rightarrow> pside \<Rightarrow> real \<Rightarrow> grid_core" where
  "update_mid_price g position_side p =
     (case position_side of
        Long \<Rightarrow>
          g\<lparr>mid_price_long := p,
            lower_price_long := p * (1 - long_grid_spacing g),
            upper_price_long := p * (1 + long_profit_spacing g)\<rparr>
      | Short \<Rightarrow>
          g\<lparr>mid_price_short := p,
            lower_price_short := p * (1 - short_profit_spacing g),
            upper_price_short := p * (1 + short_grid_spacing g)\<rparr>)"

text \<open>
  \<open>get_take_profit_quantity\<close> returns nothing: it stores the size in the side's
  \<open>*_initial_quantity\<close> field, which the callers then read.
\<close>

definition get_take_profit_quantity :: "grid_config \<Rightarrow> grid_core \<Rightarrow> real \<Rightarrow> pside \<Rightarrow> grid_core" where
  "get_take_profit_quantity cfg g position position_side =
     (case position_side of
        Long \<Rightarrow>
          if position > POSITION_LIMIT cfg
          then g\<lparr>long_initial_quantity := min position (INITIAL_QUANTITY cfg * 2)\<rparr>
          else g\<lparr>long_initial_quantity := min position (INITIAL_QUANTITY cfg)\<rparr>
      | Short \<Rightarrow>
          if position > POSITION_LIMIT cfg
          then g\<lparr>short_initial_quantity := min position (INITIAL_QUANTITY cfg * 2)\<rparr>
          else g\<lparr>short_initial_quantity := min position (INITIAL_QUANTITY cfg)\<rparr>)"

definition initial_quantity :: "pside \<Rightarrow> grid_core \<Rightarrow> real" where
  "initial_quantity position_side g =
     (case position_side of Long \<Rightarrow> long_initial_quantity g | Short \<Rightarrow> short_initial_quantity g)"

subsection \<open>Placing orders\<close>

text \<open>
  \<open>initialize_long_orders\<close> and \<open>initialize_short_orders\<close> have no exception handler: an
  exception of \<open>place_order\<close> other than a ccxt error leaves them (and
  \<open>adjust_grid_strategy\<close>) as \<open>Inl\<close>, with the state reached so far.
\<close>

definition initialize_long_orders ::
  "'x ccxt \<Rightarrow> exchange_interface \<Rightarrow> grid_config \<Rightarrow> grid_core \<Rightarrow> real \<Rightarrow> 'x world
     \<Rightarrow> (exn + unit) \<times> grid_core \<times> 'x world" where
  "initialize_long_orders gw ei cfg g now w =
     (if now - last_long_order_time g < ORDER_FIRST_TIME cfg then (Inr (), g, w)
      else
        (case cancel_orders_for_side gw g Long w of
           (g1, w1) \<Rightarrow>
             (case place_order gw ei Buy (best_bid_price g1) (INITIAL_QUANTITY cfg) False
                     (Some Long) Limit w1 of
                (Inl e, w2) \<Rightarrow> (Inl e, g1, w2)
              | (Inr r, w2) \<Rightarrow> (Inr (), g1\<lparr>last_long_order_time := now\<rparr>, w2))))"

definition initialize_short_orders ::
  "'x ccxt \<Rightarrow> exchange_interface \<Rightarrow> grid_config \<Rightarrow> grid_core \<Rightarrow> real \<Rightarrow> 'x world
     \<Rightarrow> (exn + unit) \<times> grid_core \<times> 'x world" where
  "initialize_short_orders gw ei cfg g now w =
     (if now - last_short_order_time g < ORDER_FIRST_TIME cfg then (Inr (), g, w)
      else
        (case cancel_orders_for_side gw g Short w of
           (g1, w1) \<Rightarrow>
             (case place_order gw ei Sell (best_ask_price g1) (INITIAL_QUANTITY cfg) False
                     (Some Short) Limit w1 of
                (Inl e, w2) \<Rightarrow> (Inl e, g1, w2)
              | (Inr r, w2) \<Rightarrow> (Inr (), g1\<lparr>last_short_order_time := now\<rparr>, w2))))"

text \<open>
  \<open>place_long_orders\<close> and \<open>place_short_orders\<close> catch every exception: a failing call
  ends the function with the state reached so far.
\<close>

definition place_long_orders ::
  "'x ccxt \<Rightarrow> exchange_interface \<Rightarrow> grid_config \<Rightarrow> grid_core \<Rightarrow> real \<Rightarrow> 'x world
     \<Rightarrow> grid_core \<times> 'x world" where
  "place_long_orders gw ei cfg g p w =
     (let g1 = get_take_profit_quantity cfg g (long_position g) Long in
      if long_position g1 > 0 then
        (if long_position g1 > POSITION_THRESHOLD cfg then
           (if sell_long_orders g1 \<le> 0 then
              (let ratio = (long_position g1 / max (short_position g1) 1) / 100 + 1;
                   profit_price = latest_price g1 * ratio
               in case place_take_profit_order gw ei Long profit_price
                         (long_initial_quantity g1) w of
                    (r, w1) \<Rightarrow> (g1, w1))
            else (g1, w))
         else
           (let g2 = update_mid_price g1 Long p in
            case cancel_orders_for_side gw g2 Long w of
              (g3, w1) \<Rightarrow>
                (case place_take_profit_order gw ei Long (upper_price_long g3)
                        (long_initial_quantity g3) w1 of
                   (Inl e, w2) \<Rightarrow> (g3, w2)
                 | (Inr r, w2) \<Rightarrow>
                     (case place_order gw ei Buy (Some (lower_price_long g3))
                             (long_initial_quantity g3) False (Some Long) Limit w2 of
                        (r', w3) \<Rightarrow> (g3, w3)))))
      else (g1, w))"

definition place_short_orders ::
  "'x ccxt \<Rightarrow> exchange_interface \<Rightarrow> grid_config \<Rightarrow> grid_core \<Rightarrow> real \<Rightarrow> 'x world
     \<Rightarrow> grid_core \<times> 'x world" where
  "place_short_orders gw ei cfg g p w =
     (let g1 = get_take_profit_quantity cfg g (short_position g) Short in
      if short_position g1 > 0 then
        (if short_position g1 > POSITION_THRESHOLD cfg then
           (if buy_short_orders g1 \<le> 0 then
              (let ratio = (short_position g1 / max (long_position g1) 1) / 100 + 1;
                   profit_price = latest_price g1 / ratio
               in case place_take_profit_order gw ei Short profit_price
                         (short_initial_quantity g1) w of
                    (r, w1) \<Rightarrow> (g1, w1))
            else (g1, w))
         else
           (let g2 = update_mid_price g1 Short p in
            case cancel_orders_for_side gw g2 Short w of
              (g3, w1) \<Rightarrow>
                (case place_take_profit_order gw ei Short (lower_price_short g3)
                        (short_initial_quantity g3) w1 of
                   (Inl e, w2) \<Rightarrow> (g3, w2)
                 | (Inr r, w2) \<Rightarrow>
                     (case place_order gw ei Sell (Some (upper_price_short g3))
                             (short_initial_quantity g3) False (Some Short) Limit w2 of
                        (r', w3) \<Rightarrow> (g3, w3)))))
      else (g1, w))"

subsection \<open>Risk valve and adjustment pass\<close>

definition check_and_reduce_positions ::
  "'x ccxt \<Rightarrow> exchange_interface \<Rightarrow> grid_config \<Rightarrow> grid_core \<Rightarrow> 'x world \<Rightarrow> 'x world" where
  "check_and_reduce_positions gw ei cfg g w =
     (if long_position g > POSITION_THRESHOLD cfg \<and> short_position g > POSITION_THRESHOLD cfg then
        (let reduce_quantity = min (long_position g) (short_position g) * (1 / 2) in
         if reduce_quantity > 0 then
           (let aggressive_sell_price = latest_price g * (999 / 1000);
                aggressive_buy_price = latest_price g * (1001 / 1000)
            in case place_order gw ei Sell (Some aggressive_sell_price) reduce_quantity True
                      (Some Long) Limit w of
                 (Inl e, w1) \<Rightarrow> w1
               | (Inr r, w1) \<Rightarrow>
                   (case place_order gw ei Buy (Some aggressive_buy_price) reduce_quantity True
                           (Some Short) Limit w1 of
                      (r', w2) \<Rightarrow> w2))
         else w)
      else w)"

text \<open>
  The two halves of \<open>adjust_grid_strategy\<close>, one per side. \<open>orders_valid\<close> is computed
  once, before the resync, and the second test reads the same local variable.
\<close>

definition adjust_long_side ::
  "'x ccxt \<Rightarrow> exchange_interface \<Rightarrow> grid_config \<Rightarrow> grid_core \<Rightarrow> real \<Rightarrow> 'x world
     \<Rightarrow> (exn + unit) \<times> grid_core \<times> 'x world" where
  "adjust_long_side gw ei cfg g now w =
     (if long_position g = 0 then initialize_long_orders gw ei cfg g now w
      else
        (let orders_valid =
               (\<not> (0 < buy_long_orders g \<and> buy_long_orders g \<le> long_initial_quantity g) \<or>
                \<not> (0 < sell_long_orders g \<and> sell_long_orders g \<le> long_initial_quantity g))
         in if orders_valid then
              (if long_position g < POSITION_THRESHOLD cfg then
                 (case check_orders_status gw g w of
                    (g1, w1) \<Rightarrow>
                      if orders_valid
                      then (case place_long_orders gw ei cfg g1 (latest_price g1) w1 of
                              (g2, w2) \<Rightarrow> (Inr (), g2, w2))
                      else (Inr (), g1, w1))
               else (case place_long_orders gw ei cfg g (latest_price g) w of
                       (g2, w2) \<Rightarrow> (Inr (), g2, w2)))
            else (Inr (), g, w)))"

definition adjust_short_side ::
  "'x ccxt \<Rightarrow> exchange_interface \<Rightarrow> grid_config \<Rightarrow> grid_core \<Rightarrow> real \<Rightarrow> 'x world
     \<Rightarrow> (exn + unit) \<times> grid_core \<times> 'x world" where
  "adjust_short_side gw ei cfg g now w =
     (if short_position g = 0 then initialize_short_orders gw ei cfg g now w
      else
        (let orders_valid =
               (\<not> (0 < sell_short_orders g \<and> sell_short_orders g \<le> short_initial_quantity g) \<or>
                \<not> (0 < buy_short_orders g \<and> buy_short_orders g \<le> short_initial_quantity g))
         in if orders_valid then
              (if short_position g < POSITION_THRESHOLD cfg then
                 (case check_orders_status gw g w of
                    (g1, w1) \<Rightarrow>
                      if orders_valid
                      then (case place_short_orders gw ei cfg g1 (latest_price g1) w1 of
                              (g2, w2) \<Rightarrow> (Inr (), g2, w2))
                      else (Inr (), g1, w1))
               else (case place_short_orders gw ei cfg g (latest_price g) w of
                       (g2, w2) \<Rightarrow> (Inr (), g2, w2)))
            else (Inr (), g, w)))"

definition adjust_grid_strategy ::
  "'x ccxt \<Rightarrow> exchange_interface \<Rightarrow> grid_config \<Rightarrow> grid_core \<Rightarrow> real \<Rightarrow> 'x world
     \<Rightarrow> (exn + unit) \<times> grid_core \<times> 'x world" where
  "adjust_grid_strategy gw ei cfg g now w =
     (let w0 = check_and_reduce_positions gw ei cfg g w in
      case adjust_long_side gw ei cfg g now w0 of
        (Inl e, g1, w1) \<Rightarrow> (Inl e, g1, w1)
      | (Inr u, g1, w1) \<Rightarrow> adjust_short_side gw ei cfg g1 now w1)"

section \<open>The bot (grid\_strategy\_XRP.py)\<close>

record bot =
  grid :: grid_core
  extreme_protection :: protection
  iface :: exchange_interface
  is_sleeping :: bool
  sleep_start_time :: real
  last_signal_check_time :: real
  last_ticker_update_time :: real

subsection \<open>Incremental updates from order events\<close>

datatype pending_action = Add | Remove

definition update_pending_orders ::
  "grid_core \<Rightarrow> order_side \<Rightarrow> position_tag \<Rightarrow> real \<Rightarrow> pending_action \<Rightarrow> grid_core" where
  "update_pending_orders g side position_side quantity action =
     (case action of
        Add \<Rightarrow>
          if side = Buy \<and> position_side = LONG
            then g\<lparr>buy_long_orders := buy_long_orders g + quantity\<rparr>
          else if side = Sell \<and> position_side = LONG
            then g\<lparr>sell_long_orders := sell_long_orders g + quantity\<rparr>
          else if side = Buy \<and> position_side = SHORT
            then g\<lparr>buy_short_orders := buy_short_orders g + quantity\<rparr>
          else if side = Sell \<and> position_side = SHORT
            then g\<lparr>sell_short_orders := sell_short_orders g + quantity\<rparr>
          else g
      | Remove \<Rightarrow>
          if side = Buy \<and> position_side = LONG
            then g\<lparr>buy_long_orders := max 0 (buy_long_orders g - quantity)\<rparr>
          else if side = Sell \<and> position_side = LONG
            then g\<lparr>sell_long_orders := max 0 (sell_long_orders g - quantity)\<rparr>
          else if side = Buy \<and> position_side = SHORT
            then g\<lparr>buy_short_orders := max 0 (buy_short_orders g - quantity)\<rparr>
          else if side = Sell \<and> position_side = SHORT
            then g\<lparr>sell_short_orders := max 0 (sell_short_orders g - quantity)\<rparr>
          else g)"

definition update_position_and_orders ::
  "grid_core \<Rightarrow> order_side \<Rightarrow> position_tag \<Rightarrow> real \<Rightarrow> grid_core" where
  "update_position_and_orders g side position_side filled_quantity =
     (case side of
        Buy \<Rightarrow>
          if position_side = LONG then
            g\<lparr>long_position := long_position g + filled_quantity,
              buy_long_orders := max 0 (buy_long_orders g - filled_quantity)\<rparr>
          else if position_side = SHORT then
            g\<lparr>short_position := max 0 (short_position g - filled_quantity),
              buy_short_orders := max 0 (buy_short_orders g - filled_quantity)\<rparr>
          else g
      | Sell \<Rightarrow>
          if position_side = LONG then
            g\<lparr>long_position := max 0 (long_position g - filled_quantity),
              sell_long_orders := max 0 (sell_long_orders g - filled_quantity)\<rparr>
          else if position_side = SHORT then
            g\<lparr>short_position := short_position g + filled_quantity,
              sell_short_orders := max 0 (sell_short_orders g - filled_quantity)\<rparr>
          else g)"

text \<open>
  The order event of the user-data stream, after \<open>json.loads\<close>: symbol \<open>s\<close>, side \<open>S\<close>,
  position side \<open>ps\<close>, status \<open>X\<close>, quantity \<open>q\<close> and cumulative filled quantity \<open>z\<close>.
\<close>

datatype update_status = NEW | FILLED | CANCELED | EXPIRED | PARTIALLY_FILLED

record order_update =
  u_symbol :: string
  u_side :: order_side
  u_position_side :: position_tag
  u_status :: update_status
  u_quantity :: real
  u_filled :: real

definition sync_position :: "'x ccxt \<Rightarrow> grid_config \<Rightarrow> grid_core \<Rightarrow> 'x world \<Rightarrow> grid_core \<times> 'x world" where
  "sync_position gw cfg g w =
     (case get_position gw cfg w of
        ((long_pos, short_pos), w') \<Rightarrow>
          (g\<lparr>long_position := long_pos, short_position := short_pos\<rparr>, w'))"

definition handle_order_update ::
  "'x ccxt \<Rightarrow> grid_config \<Rightarrow> grid_core \<Rightarrow> order_update \<Rightarrow> 'x world \<Rightarrow> grid_core \<times> 'x world" where
  "handle_order_update gw cfg g m w =
     (let remaining = u_quantity m - u_filled m in
      if u_symbol m \<noteq> COIN_NAME cfg @ CONTRACT_TYPE cfg then (g, w)
      else
        (let g1 =
               (if u_status m = NEW
                  then update_pending_orders g (u_side m) (u_position_side m) remaining Add
                else if u_status m = FILLED
                  then update_position_and_orders g (u_side m) (u_position_side m) (u_filled m)
                else if u_status m = CANCELED \<or> u_status m = EXPIRED
                  then update_pending_orders g (u_side m) (u_position_side m) remaining Remove
                else g)
         in if u_status m = FILLED \<or> u_status m = CANCELED \<or> u_status m = EXPIRED then
              (case check_orders_status gw g1 w of
                 (g2, w1) \<Rightarrow>
                   if u_status m = FILLED then sync_position gw cfg g2 w1 else (g2, w1))
            else (g1, w)))"

subsection \<open>The bot's own emergency routine\<close>

fun cancel_every :: "'x ccxt \<Rightarrow> open_order list \<Rightarrow> 'x world \<Rightarrow> 'x world" where
  "cancel_every gw [] w = w"
| "cancel_every gw (ord # rest) w =
     (case cancel_order gw (oid ord) w of (r, w') \<Rightarrow> cancel_every gw rest w')"

definition flatten_positions ::
  "'x ccxt \<Rightarrow> exchange_interface \<Rightarrow> grid_config \<Rightarrow> 'x world \<Rightarrow> 'x world" where
  "flatten_positions gw ei cfg w =
     (case get_position gw cfg w of
        ((long_pos, short_pos), w1) \<Rightarrow>
          (case (if long_pos > 0
                 then place_order gw ei Sell (Some 0) long_pos True (Some Long) Limit w1
                 else (Inr None, w1)) of
             (Inl e, w2) \<Rightarrow> w2
           | (Inr r, w2) \<Rightarrow>
               if short_pos > 0
               then (case place_order gw ei Buy (Some 0) short_pos True (Some Short) Limit w2 of
                       (r', w3) \<Rightarrow> w3)
               else w2))"

text \<open>
  \<open>GridTradingBot.trigger_emergency_protection\<close>: step 1 cancels every open order, step 2
  flattens, each inside its own handler for every exception; steps 3 and 4 follow.
\<close>

definition bot_trigger_emergency_protection ::
  "'x ccxt \<Rightarrow> grid_config \<Rightarrow> bot \<Rightarrow> real \<Rightarrow> 'x world \<Rightarrow> bot \<times> 'x world" where
  "bot_trigger_emergency_protection gw cfg b current_time w =
     (case fetch_open_orders gw w of
        (orders, w1) \<Rightarrow>
          (let w2 = (if orders \<noteq> [] then cancel_every gw orders w1 else w1);
               w3 = flatten_positions gw (iface b) cfg w2
           in (b\<lparr>is_sleeping := True,
                 sleep_start_time := current_time,
                 grid := (grid b)\<lparr>buy_long_orders := 0, sell_long_orders := 0,
                                  sell_short_orders := 0, buy_short_orders := 0,
                                  long_position := 0, short_position := 0\<rparr>\<rparr>, w3)))"

section \<open>Reference classifications\<close>

text \<open>
  The total open quantity of one (side, position side) class of an open-order list,
  written independently of the loop of \<open>check_orders_status\<close>.
\<close>

definition pending_quantity :: "order_side \<Rightarrow> position_tag \<Rightarrow> open_order list \<Rightarrow> real" where
  "pending_quantity sd ps orders =
     sum_list (map (\<lambda>ord. \<bar>o_orig_qty ord\<bar>)
       (filter (\<lambda>ord. o_side ord = sd \<and> o_position_side ord = ps) orders))"

text \<open>
  The classification as the specification words it, on side, position side and the
  reduce-only flag: an entry order is not reduce-only and trades in the direction of its
  position side; a take-profit order is reduce-only and trades against it.
\<close>

definition spec_pending_quantity ::
  "order_side \<Rightarrow> position_tag \<Rightarrow> bool \<Rightarrow> open_order list \<Rightarrow> real" where
  "spec_pending_quantity sd ps ro orders =
     sum_list (map (\<lambda>ord. \<bar>o_orig_qty ord\<bar>)
       (filter (\<lambda>ord. o_side ord = sd \<and> o_position_side ord = ps \<and> o_reduce_only ord = ro)
          orders))"

definition spec_counters :: "open_order list \<Rightarrow> real \<times> real \<times> real \<times> real" where
  "spec_counters orders =
     (spec_pending_quantity Buy LONG False orders,
      spec_pending_quantity Sell LONG True orders,
      spec_pending_quantity Sell SHORT False orders,
      spec_pending_quantity Buy SHORT True orders)"

definition counters :: "grid_core \<Rightarrow> real \<times> real \<times> real \<times> real" where
  "counters g = (buy_long_orders g, sell_long_orders g, sell_short_orders g, buy_short_orders g)"

section \<open>Event sequences\<close>

text \<open>
  The operations that write the two position fields while the bot trades: the incremental
  fill update, alone or inside the order-event handler (which resyncs after a terminal
  status), and the full reconciliation against the exchange's position snapshot (at
  startup, after a fill, and every 30 seconds from the ticker handler). Updates of the
  pending-order counters are included since they come from the same events.
\<close>

datatype event =
    Fill order_side position_tag real
  | PendingChange order_side position_tag real pending_action
  | OrderEvent order_update
  | PositionSync

fun apply_event ::
  "'x ccxt \<Rightarrow> grid_config \<Rightarrow> grid_core \<times> 'x world \<Rightarrow> event \<Rightarrow> grid_core \<times> 'x world" where
  "apply_event gw cfg (g, w) (Fill sd ps q) = (update_position_and_orders g sd ps q, w)"
| "apply_event gw cfg (g, w) (PendingChange sd ps q a) = (update_pending_orders g sd ps q a, w)"
| "apply_event gw cfg (g, w) (OrderEvent m) = handle_order_update gw cfg g m w"
| "apply_event gw cfg (g, w) PositionSync = sync_position gw cfg g w"

definition run_events ::
  "'x ccxt \<Rightarrow> grid_config \<Rightarrow> grid_core \<times> 'x world \<Rightarrow> event list \<Rightarrow> grid_core \<times> 'x world" where
  "run_events gw cfg start events = foldl (apply_event gw cfg) start events"

fun filled_quantity :: "event \<Rightarrow> real" where
  "filled_quantity (Fill sd ps q) = q"
| "filled_quantity (OrderEvent m) = u_filled m"
| "filled_quantity (PendingChange sd ps q a) = 0"
| "filled_quantity PositionSync = 0"

text \<open>
  The condition that the exchange reports position sizes as magnitudes: no snapshot it
  can return lists a negative contract count for the long side of the traded symbol.
  (The short side's count is stored as an absolute value by \<open>get_position\<close> itself,
  the long side's count as it comes.)
\<close>

definition long_size_ok :: "grid_config \<Rightarrow> position_entry \<Rightarrow> bool" where
  "long_size_ok cfg p =
     (if pe_symbol p = get_ccxt_symbol cfg \<and> pe_side p = Some Long then 0 \<le> contracts p
      else True)"

definition reports_sizes :: "'x ccxt \<Rightarrow> grid_config \<Rightarrow> bool" where
  "reports_sizes gw cfg =
     (\<forall>x. case fst (fetch_positions gw x) of
             Inl e \<Rightarrow> True
           | Inr positions \<Rightarrow> list_all (long_size_ok cfg) positions)"

section \<open>Orders placed by a pass\<close>

text \<open>
  The order requests a computation handed to the exchange: what \<open>sent\<close> gained between
  the world before and the world after.
\<close>

definition placed :: "'x world \<Rightarrow> 'x world \<Rightarrow> order_request list" where
  "placed w w' = drop (length (sent w)) (sent w')"

definition for_side :: "pside \<Rightarrow> order_request \<Rightarrow> bool" where
  "for_side ps r = (r_position_side r = Some (upper ps))"

text \<open>
  A closing order of a side: reduce-only, limit, on that position side, trading against
  it (sell for long, buy for short).
\<close>

definition is_closing :: "pside \<Rightarrow> order_request \<Rightarrow> bool" where
  "is_closing ps r =
     (r_position_side r = Some (upper ps) \<and> r_reduce_only r \<and> r_type r = Limit \<and>
      r_side r = closing_side ps)"

definition position_of :: "pside \<Rightarrow> grid_core \<Rightarrow> real" where
  "position_of ps g = (case ps of Long \<Rightarrow> long_position g | Short \<Rightarrow> short_position g)"

definition other_side :: "pside \<Rightarrow> pside" where
  "other_side ps = (case ps of Long \<Rightarrow> Short | Short \<Rightarrow> Long)"

text \<open>The step of \<open>adjust_grid_strategy\<close> that belongs to one side.\<close>

definition adjust_side ::
  "pside \<Rightarrow> 'x ccxt \<Rightarrow> exchange_interface \<Rightarrow> grid_config \<Rightarrow> grid_core \<Rightarrow> real \<Rightarrow> 'x world
     \<Rightarrow> (exn + unit) \<times> grid_core \<times> 'x world" where
  "adjust_side ps = (case ps of Long \<Rightarrow> adjust_long_side | Short \<Rightarrow> adjust_short_side)"

section \<open>The ticker handler\<close>

subsection \<open>Real-time trend detection of the protection module\<close>

definition list_max :: "real list \<Rightarrow> real" where
  "list_max xs = foldl max (hd xs) (tl xs)"

definition list_min :: "real list \<Rightarrow> real" where
  "list_min xs = foldl min (hd xs) (tl xs)"

text \<open>
  \<open>price_buffer[-window:]\<close> is the whole buffer when the window is 0. The buffer is not
  empty here: \<open>update_market_data\<close> has just appended to it.
\<close>

definition detect_trend_change :: "protection \<Rightarrow> real \<Rightarrow> real \<Rightarrow> protection" where
  "detect_trend_change s current_price current_time =
     (let window = trend_detection_window (config s);
          prices = map snd (price_buffer s)
      in if length prices < window then s
         else
           (let recent_prices = (if window = 0 then prices
                                 else drop (length prices - window) prices);
                window_high = list_max recent_prices;
                window_low = list_min recent_prices;
                window_mid = (window_high + window_low) / 2;
                new_direction =
                  (if current_price > window_mid * (102 / 100) then Up
                   else if current_price < window_mid * (98 / 100) then Down
                   else Neutral)
            in if new_direction \<noteq> current_trend_direction s \<and> new_direction \<noteq> Neutral then
                 s\<lparr>current_trend_direction := new_direction,
                   current_trend_start_price := Some current_price,
                   current_trend_start_time := Some current_time\<rparr>
               else s))"

definition update_market_data :: "protection \<Rightarrow> real \<Rightarrow> real \<Rightarrow> market_state \<times> protection" where
  "update_market_data s p current_time =
     (let s1 = s\<lparr>price_buffer := push_bounded (price_buffer s) (current_time, p) (max_buffer_size s)\<rparr>;
          (atr, s2) = calculate_atr s1 14;
          s3 = detect_trend_change s2 p current_time;
          magnitude =
            (if truthy (current_trend_start_price s3) \<and> current_trend_direction s3 \<noteq> Neutral then
               (let p0 = the (current_trend_start_price s3);
                    m = ((p - p0) / p0) * 100
                in if current_trend_direction s3 = Down then \<bar>m\<bar> else m)
             else 0);
          ext = (\<bar>magnitude\<bar> \<ge> extreme_threshold (config s3));
          ms = \<lparr>ms_timestamp = current_time, price = p,
                trend_start_price = or_else (current_trend_start_price s3) p,
                trend_start_time =
                  (case current_trend_start_time s3 of Some t \<Rightarrow> t | None \<Rightarrow> current_time),
                trend_direction = current_trend_direction s3,
                trend_magnitude = magnitude, consecutive_klines = 0, atr_value = atr,
                is_extreme = ext, protection_triggered = protection_active s3\<rparr>
      in (ms, s3))"

subsection \<open>Signal adjustment\<close>

text \<open>
  The signal adapter (klines, moving averages, trend classification) is an input here:
  \<open>signal\<close> runs the hourly refresh against the exchange and returns the spacing
  multipliers to apply, or \<open>None\<close> when the classification did not change or the
  refresh failed.
\<close>

record adjustment =
  long_grid_spacing_multiplier :: real
  short_grid_spacing_multiplier :: real
  long_profit_spacing_multiplier :: real
  short_profit_spacing_multiplier :: real

definition apply_grid_adjustment :: "grid_core \<Rightarrow> adjustment \<Rightarrow> grid_core" where
  "apply_grid_adjustment g a =
     g\<lparr>long_grid_spacing := long_grid_spacing g * long_grid_spacing_multiplier a,
       short_grid_spacing := short_grid_spacing g * short_grid_spacing_multiplier a,
       long_profit_spacing := long_profit_spacing g * long_profit_spacing_multiplier a,
       short_profit_spacing := short_profit_spacing g * short_profit_spacing_multiplier a\<rparr>"

subsection \<open>Price update\<close>

text \<open>
  A quote field is \<open>None\<close> when the message lacks it or it does not parse, and is
  rejected when it is not positive.
\<close>

definition valid_quote :: "real option \<Rightarrow> bool" where
  "valid_quote q = (case q of None \<Rightarrow> False | Some v \<Rightarrow> 0 < v)"

text \<open>
  The reconciliation part of the handler: position sync every 30 seconds, order sync
  every 60 seconds, signal refresh every 3600 seconds, then the adjustment pass. An
  exception leaving the pass is caught by the handler; the state reached stays.
\<close>

definition reconcile_and_adjust ::
  "'x ccxt \<Rightarrow> grid_config \<Rightarrow> ('x world \<Rightarrow> adjustment option \<times> 'x world) \<Rightarrow> bot \<Rightarrow> real
     \<Rightarrow> 'x world \<Rightarrow> bot \<times> 'x world" where
  "reconcile_and_adjust gw cfg signal b current_time w =
     (case (if current_time - last_position_update_time (grid b) > 30
            then (case sync_position gw cfg (grid b) w of
                    (g, w') \<Rightarrow> (g\<lparr>last_position_update_time := current_time\<rparr>, w'))
            else (grid b, w)) of
        (g1, w1) \<Rightarrow>
          (case (if current_time - last_orders_update_time g1 > 60
                 then (case check_orders_status gw g1 w1 of
                         (g, w') \<Rightarrow> (g\<lparr>last_orders_update_time := current_time\<rparr>, w'))
                 else (g1, w1)) of
             (g2, w2) \<Rightarrow>
               (case (if current_time - last_signal_check_time b > 3600
                      then (case signal w2 of
                              (None, w') \<Rightarrow> (g2, current_time, w')
                            | (Some a, w') \<Rightarrow> (apply_grid_adjustment g2 a, current_time, w'))
                      else (g2, last_signal_check_time b, w2)) of
                  (g3, checked, w3) \<Rightarrow>
                    (case adjust_grid_strategy gw (iface b) cfg g3 current_time w3 of
                       (r, g4, w4) \<Rightarrow>
                         (b\<lparr>grid := g4, last_signal_check_time := checked\<rparr>, w4)))))"

definition handle_ticker_update ::
  "'x ccxt \<Rightarrow> grid_config \<Rightarrow> ('x world \<Rightarrow> adjustment option \<times> 'x world) \<Rightarrow> bot
     \<Rightarrow> real option \<Rightarrow> real option \<Rightarrow> real \<Rightarrow> 'x world \<Rightarrow> bot \<times> 'x world" where
  "handle_ticker_update gw cfg signal b best_bid best_ask current_time w =
     (if \<not> valid_quote best_bid \<or> \<not> valid_quote best_ask then (b, w)
      else
        (let new_price = (the best_bid + the best_ask) / 2;
             b1 = b\<lparr>grid := (grid b)\<lparr>best_bid_price := best_bid, best_ask_price := best_ask,
                                      latest_price := new_price\<rparr>,
                    iface := update_websocket_price (iface b) new_price current_time\<rparr>
         in if current_time - last_ticker_update_time b1 < 1 then (b1, w)
            else
              (let b2 = b1\<lparr>last_ticker_update_time := current_time\<rparr> in
               if is_sleeping b2 \<and> current_time - sleep_start_time b2 < 24 * 3600 then (b2, w)
               else
                 (let b3 = (if is_sleeping b2
                            then b2\<lparr>is_sleeping := False, sleep_start_time := 0\<rparr> else b2);
                      (ms, p') = update_market_data (extreme_protection b3)
                                   (latest_price (grid b3)) current_time;
                      b4 = b3\<lparr>extreme_protection := p'\<rparr>
                  in if is_extreme ms
                     then bot_trigger_emergency_protection gw cfg b4 current_time w
                     else reconcile_and_adjust gw cfg signal b4 current_time w))))"

section \<open>Concrete inputs\<close>

text \<open>A protection state in the middle of an upward run of three bars.\<close>

definition running_up :: protection where
  "running_up = (init_protection default_protection_config)
     \<lparr>consecutive_trend_direction := Up, consecutive_trend_start_price := Some 100,
      consecutive_trend_start_time := Some 0, consecutive_kline_count := 3,
      cumulative_change_percent := 5\<rparr>"

text \<open>The market state of an upward run that has reached exactly 11 percent.\<close>

definition extreme_state :: market_state where
  "extreme_state =
     \<lparr>ms_timestamp = 3600, price = 111, trend_start_price = 100, trend_start_time = 0,
      trend_direction = Up, trend_magnitude = 11, consecutive_klines = 4, atr_value = 0,
      is_extreme = True, protection_triggered = False\<rparr>"

text \<open>
  Two exchanges for the protection module: one on which every call succeeds, and one on
  which the cancellation of the second open order raises.
\<close>

definition calm_exchange :: "unit protection_exchange" where
  "calm_exchange =
     \<lparr>get_open_orders = (\<lambda>x. (Inr [''a1'', ''a2''], x)),
      ex_cancel_order = (\<lambda>i x. (Inr (), x)),
      ex_get_position = (\<lambda>x. (Inr (Some (5, 0)), x)),
      ex_place_order = (\<lambda>c x. (Inr (Some (Some ''c1'')), x)),
      get_order_status = (\<lambda>i x. (Inr (Some Filled), x))\<rparr>"

definition stuck_exchange :: "unit protection_exchange" where
  "stuck_exchange =
     \<lparr>get_open_orders = (\<lambda>x. (Inr [''a1'', ''a2''], x)),
      ex_cancel_order = (\<lambda>i x. (if i = ''a2'' then Inl CcxtError else Inr (), x)),
      ex_get_position = (\<lambda>x. (Inr (Some (5, 0)), x)),
      ex_place_order = (\<lambda>c x. (Inr (Some (Some ''c1'')), x)),
      get_order_status = (\<lambda>i x. (Inr (Some Filled), x))\<rparr>"

text \<open>The run after a fourth bar that closes at 111, and after one that closes at 110.99.\<close>

definition after_eleven :: protection where
  "after_eleven =
     running_up\<lparr>kline_buffer := [\<lparr>k_timestamp = 3600, open_price = 110, high_price = 111,
                                 low_price = 110, close_price = 111, volume = 7,
                                 k_direction = Up, change_percent = 10 / 11\<rparr>],
                consecutive_kline_count := 4, cumulative_change_percent := 11,
                price_buffer := [(3600, 111)]\<rparr>"

definition after_below_eleven :: protection where
  "after_below_eleven =
     running_up\<lparr>kline_buffer := [\<lparr>k_timestamp = 3600, open_price = 110, high_price = 111,
                                 low_price = 110, close_price = 11099 / 100, volume = 7,
                                 k_direction = Up, change_percent = 9 / 10\<rparr>],
                consecutive_kline_count := 4, cumulative_change_percent := 1099 / 100,
                price_buffer := [(3600, 11099 / 100)]\<rparr>"

definition below_extreme_state :: market_state where
  "below_extreme_state =
     extreme_state\<lparr>price := 11099 / 100, trend_magnitude := 1099 / 100, is_extreme := False\<rparr>"

text \<open>
  Two hibernating protection states, both put to sleep at time 0: one that never learned
  a baseline ATR, one with baseline 0.002.
\<close>

definition asleep_no_baseline :: protection where
  "asleep_no_baseline = (init_protection default_protection_config)
     \<lparr>protection_active := True, hibernation_start_time := Some 0\<rparr>"

definition asleep_with_baseline :: protection where
  "asleep_with_baseline = (init_protection default_protection_config)
     \<lparr>protection_active := True, hibernation_start_time := Some 0,
      baseline_atr := Some (2 / 1000)\<rparr>"

definition quiet_state :: "real \<Rightarrow> market_state" where
  "quiet_state atr =
     \<lparr>ms_timestamp = 360000, price = 1, trend_start_price = 1, trend_start_time = 360000,
      trend_direction = Neutral, trend_magnitude = 0, consecutive_klines = 0,
      atr_value = atr, is_extreme = False, protection_triggered = True\<rparr>"

text \<open>
  A ccxt client that lists one resting sell order on the long side whose reduce-only flag
  is not set, and accepts everything else.
\<close>

definition resting_sell :: open_order where
  "resting_sell =
     \<lparr>oid = ''t1'', o_side = Sell, o_reduce_only = False, o_position_side = LONG,
      o_orig_qty = 3, o_price = 2\<rparr>"

definition listing_gateway :: "unit ccxt" where
  "listing_gateway =
     \<lparr>fetch_positions = (\<lambda>x. (Inr [], x)),
      ccxt_fetch_open_orders = (\<lambda>x. (Inr [resting_sell], x)),
      ccxt_cancel_order = (\<lambda>i x. (Inr (), x)),
      create_order = (\<lambda>r x. (Inr ''n1'', x))\<rparr>"

definition fresh_world :: "unit world" where
  "fresh_world = \<lparr>ext = (), sent = []\<rparr>"

text \<open>A grid state whose counters are stale (all 7).\<close>

definition stale_grid :: grid_core where
  "stale_grid = (init_grid_core default_config)
     \<lparr>buy_long_orders := 7, sell_long_orders := 7, sell_short_orders := 7,
      buy_short_orders := 7\<rparr>"

text \<open>
  A ccxt client on which every call raises: a ccxt error for the queries, another
  exception for cancellation and order creation. And one that reports a position on both
  sides and open orders, and whose order creation raises.
\<close>

definition failing_gateway :: "unit ccxt" where
  "failing_gateway =
     \<lparr>fetch_positions = (\<lambda>x. (Inl CcxtError, x)),
      ccxt_fetch_open_orders = (\<lambda>x. (Inl CcxtError, x)),
      ccxt_cancel_order = (\<lambda>i x. (Inl OtherException, x)),
      create_order = (\<lambda>r x. (Inl OtherException, x))\<rparr>"

definition xrp_position :: "pside \<Rightarrow> real \<Rightarrow> position_entry" where
  "xrp_position ps n = \<lparr>pe_symbol = ''XRP/USDC:USDC'', contracts = n, pe_side = Some ps\<rparr>"

definition rejecting_gateway :: "unit ccxt" where
  "rejecting_gateway =
     \<lparr>fetch_positions = (\<lambda>x. (Inr [xrp_position Long 40, xrp_position Short 25], x)),
      ccxt_fetch_open_orders = (\<lambda>x. (Inr [resting_sell], x)),
      ccxt_cancel_order = (\<lambda>i x. (Inl OtherException, x)),
      create_order = (\<lambda>r x. (Inl OtherException, x))\<rparr>"

definition default_interface :: exchange_interface where
  "default_interface =
     \<lparr>websocket_price = None, last_valid_price = None, last_price_update_time = 0,
      price_precision = 4, amount_precision = 1, min_order_amount = 1 / 10\<rparr>"

text \<open>A bot in the middle of trading, with positions and pending orders on both sides.\<close>

definition trading_grid :: grid_core where
  "trading_grid = (init_grid_core default_config)
     \<lparr>long_position := 40, short_position := 25, buy_long_orders := 3, sell_long_orders := 3,
      sell_short_orders := 3, buy_short_orders := 3, latest_price := 2,
      best_bid_price := Some (19999 / 10000), best_ask_price := Some (20001 / 10000)\<rparr>"

definition trading_bot :: bot where
  "trading_bot =
     \<lparr>grid = trading_grid, extreme_protection = init_protection default_protection_config,
      iface = default_interface, is_sleeping = False, sleep_start_time = 0,
      last_signal_check_time = 0, last_ticker_update_time = 0\<rparr>"

text \<open>
  An event sequence: a long entry fills, a long take-profit fills for more than the
  position, the handler processes a filled order, the positions are reconciled (the
  exchange reports 40 long and 25 short), and a short take-profit fills for more than
  the position.
\<close>

definition filled_message :: order_update where
  "filled_message =
     \<lparr>u_symbol = ''XRPUSDC'', u_side = Sell, u_position_side = LONG, u_status = FILLED,
      u_quantity = 3, u_filled = 3\<rparr>"

definition demo_events :: "event list" where
  "demo_events =
     [Fill Buy LONG 5, Fill Sell LONG 8, OrderEvent filled_message, PositionSync,
      Fill Buy SHORT 30]"

text \<open>
  A ccxt client with no open orders that accepts every order, and a grid state whose
  positions both exceed the threshold of 500, with nothing resting.
\<close>

definition accepting_gateway :: "unit ccxt" where
  "accepting_gateway =
     \<lparr>fetch_positions = (\<lambda>x. (Inr [], x)),
      ccxt_fetch_open_orders = (\<lambda>x. (Inr [], x)),
      ccxt_cancel_order = (\<lambda>i x. (Inr (), x)),
      create_order = (\<lambda>r x. (Inr ''n1'', x))\<rparr>"

definition both_heavy :: grid_core where
  "both_heavy = (init_grid_core default_config)
     \<lparr>long_position := 600, short_position := 600, latest_price := 2\<rparr>"

definition long_heavy :: grid_core where
  "long_heavy = (init_grid_core default_config)
     \<lparr>long_position := 600, short_position := 100, latest_price := 2,
      sell_short_orders := 3, buy_short_orders := 3, short_initial_quantity := 3\<rparr>"

definition valve_sell :: order_request where
  "valve_sell =
     \<lparr>r_type = Limit, r_side = Sell, r_quantity = 300, r_price = Some (1998 / 1000),
      r_reduce_only = True, r_position_side = Some LONG\<rparr>"

definition valve_buy :: order_request where
  "valve_buy =
     \<lparr>r_type = Limit, r_side = Buy, r_quantity = 300, r_price = Some (2002 / 1000),
      r_reduce_only = True, r_position_side = Some SHORT\<rparr>"

definition long_take_profit :: "real \<Rightarrow> order_request" where
  "long_take_profit p =
     \<lparr>r_type = Limit, r_side = Sell, r_quantity = 6, r_price = Some p,
      r_reduce_only = True, r_position_side = Some LONG\<rparr>"

definition short_take_profit :: order_request where
  "short_take_profit =
     \<lparr>r_type = Limit, r_side = Buy, r_quantity = 6, r_price = Some (19802 / 10000),
      r_reduce_only = True, r_position_side = Some SHORT\<rparr>"

text \<open>
  A sleeping bot, put to sleep at time 0. Its protection module has the baseline ATR
  0.002 and a price buffer of 15 prices alternating between 2.01 and 2.00, so that the
  next tick at 2.00 gives a current ATR of 0.01, far above 1.5 times the baseline.
\<close>

definition choppy_prices :: "(real \<times> real) list" where
  "choppy_prices =
     [(0, 201 / 100), (0, 2), (0, 201 / 100), (0, 2), (0, 201 / 100), (0, 2), (0, 201 / 100),
      (0, 2), (0, 201 / 100), (0, 2), (0, 201 / 100), (0, 2), (0, 201 / 100), (0, 2),
      (0, 201 / 100)]"

definition choppy_protection :: protection where
  "choppy_protection = (init_protection default_protection_config)
     \<lparr>price_buffer := choppy_prices, baseline_atr := Some (2 / 1000)\<rparr>"

definition sleeping_bot :: bot where
  "sleeping_bot =
     \<lparr>grid = init_grid_core default_config, extreme_protection = choppy_protection,
      iface = default_interface, is_sleeping = True, sleep_start_time = 0,
      last_signal_check_time = 0, last_ticker_update_time = 0\<rparr>"

definition no_signal :: "unit world \<Rightarrow> adjustment option \<times> unit world" where
  "no_signal w = (None, w)"

text \<open>
  A ccxt client whose position snapshot lists a signed amount of -5 on the long side of
  the traded symbol.
\<close>

definition signed_gateway :: "unit ccxt" where
  "signed_gateway =
     \<lparr>fetch_positions = (\<lambda>x. (Inr [xrp_position Long (- 5)], x)),
      ccxt_fetch_open_orders = (\<lambda>x. (Inr [], x)),
      ccxt_cancel_order = (\<lambda>i x. (Inr (), x)),
      create_order = (\<lambda>r x. (Inr ''n1'', x))\<rparr>"

section \<open>Verified properties\<close>

subsection \<open>Run detection\<close>

lemma detect_neutral:
  "k_direction k = Neutral \<Longrightarrow> detect_consecutive_trend s k = reset_consecutive_trend s"
  by (simp add: detect_consecutive_trend_def)

lemma calculate_atr_run_fields:
  "consecutive_trend_direction (snd (calculate_atr s p)) = consecutive_trend_direction s"
  "consecutive_kline_count (snd (calculate_atr s p)) = consecutive_kline_count s"
  "cumulative_change_percent (snd (calculate_atr s p)) = cumulative_change_percent s"
  by (simp_all add: calculate_atr_def Let_def)

text \<open>
  Claim C4. Whatever bars came before (the state \<open>s\<close> is arbitrary), processing one bar
  whose percent change is within the 0.1 noise threshold in absolute value succeeds and
  leaves the run state at direction neutral, bar count 0 and cumulative move 0; the
  market state returned reports the same. A bar with opening price 0 has no percent
  change: the division raises.
\<close>

theorem neutral_bar_resets_run:
  assumes "open_p \<noteq> 0" and "\<bar>((close_p - open_p) / open_p) * 100\<bar> \<le> 1 / 10"
  shows "\<exists>ms s'. update_kline_data s open_p high_p low_p close_p vol ts now = Inr (ms, s') \<and>
           consecutive_trend_direction s' = Neutral \<and>
           consecutive_kline_count s' = 0 \<and>
           cumulative_change_percent s' = 0 \<and>
           trend_direction ms = Neutral \<and> consecutive_klines ms = 0 \<and> trend_magnitude ms = 0"
proof -
  let ?chg = "((close_p - open_p) / open_p) * 100"
  from assms(2) have dir: "\<not> ?chg > 1 / 10" "\<not> ?chg < - (1 / 10)" by linarith+
  show ?thesis
    using assms(1) dir
    by (simp add: update_kline_data_def Let_def case_prod_beta detect_neutral
        calculate_atr_run_fields reset_consecutive_trend_def)
qed

theorem neutral_bar_resets_run_witness:
  "consecutive_trend_direction running_up = Up \<and>
   consecutive_kline_count running_up = 3 \<and>
   cumulative_change_percent running_up = 5 \<and>
   (\<exists>ms s'. update_kline_data running_up 100 101 99 (10005 / 100) 7 None 3600 = Inr (ms, s') \<and>
           consecutive_trend_direction s' = Neutral \<and>
           consecutive_kline_count s' = 0 \<and>
           cumulative_change_percent s' = 0 \<and>
           trend_direction ms = Neutral \<and> consecutive_klines ms = 0 \<and> trend_magnitude ms = 0)"
proof -
  have h1: "(100::real) \<noteq> 0" by simp
  have h2: "\<bar>((10005 / 100 - 100) / 100) * 100\<bar> \<le> (1 / 10 :: real)" by simp
  show ?thesis
    using neutral_bar_resets_run [OF h1 h2, of running_up 101 99 7 None 3600]
    by (simp add: running_up_def init_protection_def)
qed

subsection \<open>Emergency sequence of the protection module\<close>

lemma trigger_unfold:
  "trigger_emergency_protection ex s ms now x =
     (let c = cancel_all_orders ex x;
          p = emergency_close_all_positions ex (config s) (price ms) (snd c)
      in if fst c \<and> fst p
         then (True,
               save_state (s\<lparr>protection_active := True, hibernation_start_time := Some now\<rparr>) now,
               snd p)
         else (False, s, snd p))"
  by (simp add: trigger_emergency_protection_def Let_def split: prod.splits)

lemma calm_cancel: "cancel_all_orders calm_exchange () = (True, ())"
  by (simp add: cancel_all_orders_def calm_exchange_def cancel_single_order_def)

lemma calm_close: "emergency_close_all_positions calm_exchange c p () = (True, ())"
  by (simp add: emergency_close_all_positions_def calm_exchange_def
      place_emergency_close_order_def split: prod.splits)

lemma stuck_cancel: "cancel_all_orders stuck_exchange () = (False, ())"
  by (simp add: cancel_all_orders_def stuck_exchange_def cancel_single_order_def)

text \<open>
  Claim C2. \<open>_trigger_emergency_protection\<close> reports success exactly when both the
  cancel-all step and the flatten-all step report success. In that case the resulting
  state has the protection flag set and the hibernation start stamped with the clock, and
  it is the state handed to the state file (one more write, recording the flag and the
  start). Otherwise the protection state is returned unchanged: the flag keeps its value
  (false when the sequence started from an inactive state), no start time is stamped and
  nothing is written.
\<close>

theorem emergency_activation_needs_both_steps:
  "(fst (trigger_emergency_protection ex s ms now x) \<longleftrightarrow>
      fst (cancel_all_orders ex x) \<and>
      fst (emergency_close_all_positions ex (config s) (price ms) (snd (cancel_all_orders ex x)))) \<and>
   (fst (trigger_emergency_protection ex s ms now x) \<longrightarrow>
      protection_active (fst (snd (trigger_emergency_protection ex s ms now x))) \<and>
      hibernation_start_time (fst (snd (trigger_emergency_protection ex s ms now x))) = Some now \<and>
      fst (snd (trigger_emergency_protection ex s ms now x)) =
        save_state (s\<lparr>protection_active := True, hibernation_start_time := Some now\<rparr>) now \<and>
      length (state_file_writes (fst (snd (trigger_emergency_protection ex s ms now x))))
        = length (state_file_writes s) + 1 \<and>
      p_protection_active
        (last (state_file_writes (fst (snd (trigger_emergency_protection ex s ms now x))))) \<and>
      p_hibernation_start_time
        (last (state_file_writes (fst (snd (trigger_emergency_protection ex s ms now x)))))
        = Some now) \<and>
   (\<not> fst (trigger_emergency_protection ex s ms now x) \<longrightarrow>
      fst (snd (trigger_emergency_protection ex s ms now x)) = s \<and>
      state_file_writes (fst (snd (trigger_emergency_protection ex s ms now x)))
        = state_file_writes s)"
  by (simp add: trigger_unfold Let_def save_state_def)

theorem emergency_activation_needs_both_steps_witness:
  "fst (trigger_emergency_protection calm_exchange running_up extreme_state 50 ()) \<and>
   protection_active
     (fst (snd (trigger_emergency_protection calm_exchange running_up extreme_state 50 ()))) \<and>
   hibernation_start_time
     (fst (snd (trigger_emergency_protection calm_exchange running_up extreme_state 50 ())))
     = Some 50 \<and>
   length (state_file_writes
     (fst (snd (trigger_emergency_protection calm_exchange running_up extreme_state 50 ())))) = 1 \<and>
   \<not> fst (trigger_emergency_protection stuck_exchange running_up extreme_state 50 ()) \<and>
   fst (snd (trigger_emergency_protection stuck_exchange running_up extreme_state 50 ()))
     = running_up \<and>
   \<not> protection_active running_up \<and> hibernation_start_time running_up = None"
  using emergency_activation_needs_both_steps
          [of calm_exchange running_up extreme_state 50 "()"]
        emergency_activation_needs_both_steps
          [of stuck_exchange running_up extreme_state 50 "()"]
  by (simp add: calm_cancel calm_close stuck_cancel save_state_def running_up_def
      init_protection_def)

subsection \<open>Threshold and activation\<close>

lemma update_kline_extreme_flag:
  assumes "update_kline_data s open_p high_p low_p close_p vol ts now = Inr (ms, s')"
  shows "is_extreme ms = (\<bar>cumulative_change_percent s'\<bar> \<ge> extreme_threshold (config s'))"
    and "trend_magnitude ms = cumulative_change_percent s'"
  using assms
  by (auto simp: update_kline_data_def Let_def case_prod_beta split: if_splits)

lemma check_extreme_activation:
  assumes "\<not> protection_active s"
  shows "protection_active (fst (snd (check_extreme_protection ex s ms now x))) \<longleftrightarrow>
           is_extreme ms \<and>
           (0 < consecutive_klines ms \<or>
            min_trend_duration (config s) \<le> (ms_timestamp ms - trend_start_time ms) / 60) \<and>
           fst (cancel_all_orders ex x) \<and>
           fst (emergency_close_all_positions ex (config s) (price ms)
                  (snd (cancel_all_orders ex x)))"
  using assms
  by (auto simp: check_extreme_protection_def trigger_unfold Let_def save_state_def)

lemma bar_to_eleven:
  "update_kline_data running_up 110 111 110 111 7 None 3600 = Inr (extreme_state, after_eleven)"
  by (simp add: update_kline_data_def running_up_def init_protection_def after_eleven_def
      default_protection_config_def Let_def push_bounded_def detect_consecutive_trend_def
      truthy_def calculate_atr_def extreme_state_def or_else_def)

lemma bar_below_eleven:
  "update_kline_data running_up 110 111 110 (11099 / 100) 7 None 3600 =
     Inr (below_extreme_state, after_below_eleven)"
  by (simp add: update_kline_data_def running_up_def init_protection_def after_below_eleven_def
      default_protection_config_def Let_def push_bounded_def detect_consecutive_trend_def
      truthy_def calculate_atr_def extreme_state_def below_extreme_state_def or_else_def)

lemma after_eleven_fields:
  "\<not> protection_active after_eleven" "cumulative_change_percent after_eleven = 11"
  "extreme_threshold (config after_eleven) = 11"
  "min_trend_duration (config after_eleven) = 3"
  by (simp_all add: after_eleven_def running_up_def init_protection_def
      default_protection_config_def)

lemma after_below_eleven_fields:
  "\<not> protection_active after_below_eleven"
  "cumulative_change_percent after_below_eleven = 1099 / 100"
  "extreme_threshold (config after_below_eleven) = 11"
  by (simp_all add: after_below_eleven_def running_up_def init_protection_def
      default_protection_config_def)

lemma extreme_state_fields:
  "is_extreme extreme_state" "consecutive_klines extreme_state = 4"
  "\<not> is_extreme below_extreme_state"
  by (simp_all add: extreme_state_def below_extreme_state_def)

text \<open>
  Claim C3, as stated, fails: reaching the threshold is not sufficient for protection to
  become active. The fourth bar of the run takes the cumulative move to exactly 11 with
  threshold 11, the bar is flagged extreme, and the emergency sequence runs; the
  cancellation of one open order raises, so the protection flag stays false.
\<close>

theorem threshold_reached_without_activation:
  "\<exists>ms s'. update_kline_data running_up 110 111 110 111 7 None 3600 = Inr (ms, s') \<and>
      extreme_threshold (config s') = 11 \<and> cumulative_change_percent s' = 11 \<and>
      is_extreme ms \<and> \<not> protection_active s' \<and>
      \<not> protection_active (fst (snd (check_extreme_protection stuck_exchange s' ms 3600 ())))"
proof -
  have "\<not> protection_active
          (fst (snd (check_extreme_protection stuck_exchange after_eleven extreme_state 3600 ())))"
    by (simp add: check_extreme_protection_def trigger_unfold stuck_cancel
        after_eleven_fields extreme_state_fields)
  with bar_to_eleven after_eleven_fields extreme_state_fields show ?thesis by blast
qed

text \<open>
  Claim C3, amended. A bar is flagged extreme if and only if the magnitude of the run's
  cumulative move is greater than or equal to the threshold (so with threshold 11 a run at
  exactly 11 is flagged and one at 10.99 is not). Protection that was inactive becomes
  active if and only if the bar is flagged extreme, the run has a positive bar count (or,
  for a state without bars, the trend has lasted the minimum duration), and both the
  cancel-all step and the flatten-all step of the emergency sequence succeed.
\<close>

theorem extreme_flag_and_gated_activation:
  "(update_kline_data s open_p high_p low_p close_p vol ts now = Inr (ms, s') \<longrightarrow>
      (is_extreme ms \<longleftrightarrow> extreme_threshold (config s') \<le> \<bar>cumulative_change_percent s'\<bar>) \<and>
      trend_magnitude ms = cumulative_change_percent s') \<and>
   (\<not> protection_active s1 \<longrightarrow>
      (protection_active (fst (snd (check_extreme_protection ex s1 ms1 t x))) \<longleftrightarrow>
         is_extreme ms1 \<and>
         (0 < consecutive_klines ms1 \<or>
          min_trend_duration (config s1) \<le> (ms_timestamp ms1 - trend_start_time ms1) / 60) \<and>
         fst (cancel_all_orders ex x) \<and>
         fst (emergency_close_all_positions ex (config s1) (price ms1)
                (snd (cancel_all_orders ex x)))))"
  using update_kline_extreme_flag [of s open_p high_p low_p close_p vol ts now ms s']
        check_extreme_activation [of s1 ex ms1 t x]
  by blast

theorem extreme_flag_and_gated_activation_witness:
  "update_kline_data running_up 110 111 110 111 7 None 3600 = Inr (extreme_state, after_eleven) \<and>
   cumulative_change_percent after_eleven = 11 \<and> is_extreme extreme_state \<and>
   protection_active
     (fst (snd (check_extreme_protection calm_exchange after_eleven extreme_state 3600 ()))) \<and>
   update_kline_data running_up 110 111 110 (11099 / 100) 7 None 3600
     = Inr (below_extreme_state, after_below_eleven) \<and>
   cumulative_change_percent after_below_eleven = 1099 / 100 \<and>
   \<not> is_extreme below_extreme_state \<and>
   \<not> protection_active
     (fst (snd (check_extreme_protection calm_exchange after_below_eleven below_extreme_state
                  3600 ())))"
  using extreme_flag_and_gated_activation
          [of running_up 110 111 110 111 7 None 3600 extreme_state after_eleven
              after_eleven calm_exchange extreme_state 3600 "()"]
        extreme_flag_and_gated_activation
          [of running_up 110 111 110 "11099 / 100" 7 None 3600 below_extreme_state
              after_below_eleven after_below_eleven calm_exchange below_extreme_state 3600 "()"]
  by (simp add: bar_to_eleven bar_below_eleven after_eleven_fields after_below_eleven_fields
      extreme_state_fields calm_cancel calm_close)

subsection \<open>End of hibernation\<close>

lemma is_atr_recovered_iff:
  "is_atr_recovered s a \<longleftrightarrow>
     (\<exists>b. baseline_atr s = Some b \<and> b \<noteq> 0 \<and> 0 < a \<and> a \<le> b * atr_recovery_multiplier (config s))"
  by (cases "baseline_atr s") (auto simp: is_atr_recovered_def truthy_def Let_def)

lemma check_hibernation_end_ends_iff:
  "fst (check_hibernation_end s ms now) \<longleftrightarrow>
     (\<exists>start. hibernation_start_time s = Some start \<and>
        hibernation_hours (config s) \<le> (now - start) / 3600 \<and>
        is_atr_recovered s (atr_value ms))"
  by (cases "hibernation_start_time s") (auto simp: check_hibernation_end_def Let_def)

lemma check_hibernation_end_unchanged:
  "\<not> fst (check_hibernation_end s ms now) \<Longrightarrow> check_hibernation_end s ms now = (False, s)"
  by (cases "hibernation_start_time s")
     (auto simp: check_hibernation_end_def Let_def split: if_splits)

lemma check_hibernation_end_cleared:
  "fst (check_hibernation_end s ms now) \<Longrightarrow>
     check_hibernation_end s ms now =
       (True, save_state (s\<lparr>protection_active := False, hibernation_start_time := None\<rparr>) now)"
  by (cases "hibernation_start_time s")
     (auto simp: check_hibernation_end_def Let_def split: if_splits)

lemma calculate_atr_baseline_stays_None:
  "baseline_atr s = None \<Longrightarrow> length (last_atr_values s) < 19 \<Longrightarrow>
     baseline_atr (snd (calculate_atr s period)) = None"
  by (simp add: calculate_atr_def Let_def)

text \<open>
  Claim C10. Without a baseline ATR the recovery check is false for every current ATR,
  and with a current ATR of zero it is false for every state; in either case
  \<open>_check_hibernation_end\<close> returns false and leaves the state (so the protection flag
  and the hibernation start) as it was, whatever the clock says. A state without baseline
  keeps having none while fewer than 20 ATR samples have accumulated.
\<close>

theorem no_baseline_or_zero_atr_never_ends_hibernation:
  "(baseline_atr s = None \<longrightarrow> (\<forall>a. \<not> is_atr_recovered s a)) \<and>
   \<not> is_atr_recovered s 0 \<and>
   (baseline_atr s = None \<or> atr_value ms = 0 \<longrightarrow>
      (\<forall>now. check_hibernation_end s ms now = (False, s))) \<and>
   (baseline_atr s = None \<and> length (last_atr_values s) < 19 \<longrightarrow>
      baseline_atr (snd (calculate_atr s period)) = None)"
  using check_hibernation_end_unchanged [of s ms] check_hibernation_end_ends_iff [of s ms]
        calculate_atr_baseline_stays_None [of s period]
  by (auto simp: is_atr_recovered_iff)

theorem no_baseline_or_zero_atr_never_ends_hibernation_witness:
  "baseline_atr asleep_no_baseline = None \<and>
   \<not> is_atr_recovered asleep_no_baseline (1 / 1000) \<and>
   check_hibernation_end asleep_no_baseline (quiet_state (1 / 1000)) 360000
     = (False, asleep_no_baseline) \<and>
   protection_active asleep_no_baseline \<and>
   atr_value (quiet_state 0) = 0 \<and>
   check_hibernation_end asleep_with_baseline (quiet_state 0) 360000
     = (False, asleep_with_baseline) \<and>
   baseline_atr (snd (calculate_atr asleep_no_baseline 14)) = None"
  using no_baseline_or_zero_atr_never_ends_hibernation
          [of asleep_no_baseline "quiet_state (1 / 1000)" 14]
        no_baseline_or_zero_atr_never_ends_hibernation
          [of asleep_with_baseline "quiet_state 0" 14]
  by (simp add: asleep_no_baseline_def init_protection_def quiet_state_def)

subsection \<open>Order size\<close>

text \<open>
  Claim C5. \<open>get_take_profit_quantity\<close> stores, as the side's order size,
  min(position, base) when the position does not exceed the position limit and
  min(position, 2 base) when it does, and changes nothing else. With base 3 and limit 200,
  position 199 gives 3 and position 201 gives 6, on either side.
\<close>

theorem take_profit_quantity_doubles_above_limit:
  "get_take_profit_quantity cfg g position Long =
     g\<lparr>long_initial_quantity :=
         (if position > POSITION_LIMIT cfg then min position (2 * INITIAL_QUANTITY cfg)
          else min position (INITIAL_QUANTITY cfg))\<rparr> \<and>
   get_take_profit_quantity cfg g position Short =
     g\<lparr>short_initial_quantity :=
         (if position > POSITION_LIMIT cfg then min position (2 * INITIAL_QUANTITY cfg)
          else min position (INITIAL_QUANTITY cfg))\<rparr> \<and>
   initial_quantity side (get_take_profit_quantity default_config g 199 side) = 3 \<and>
   initial_quantity side (get_take_profit_quantity default_config g 201 side) = 6"
  by (cases side)
     (simp_all add: get_take_profit_quantity_def initial_quantity_def default_config_def
        mult.commute)

theorem take_profit_quantity_doubles_above_limit_witness:
  "long_initial_quantity (get_take_profit_quantity default_config stale_grid 199 Long) = 3 \<and>
   long_initial_quantity (get_take_profit_quantity default_config stale_grid 201 Long) = 6 \<and>
   short_initial_quantity (get_take_profit_quantity default_config stale_grid 200 Short) = 3 \<and>
   short_initial_quantity (get_take_profit_quantity default_config stale_grid 2 Short) = 2"
  using take_profit_quantity_doubles_above_limit [of default_config stale_grid 199 Long]
        take_profit_quantity_doubles_above_limit [of default_config stale_grid 201 Long]
        take_profit_quantity_doubles_above_limit [of default_config stale_grid 200 Short]
        take_profit_quantity_doubles_above_limit [of default_config stale_grid 2 Short]
  by (simp add: default_config_def)

subsection \<open>Pending-order resync\<close>

lemma count_orders_sums:
  "count_orders orders (bl, sl, bs, ss) =
     (bl + pending_quantity Buy LONG orders, sl + pending_quantity Sell LONG orders,
      bs + pending_quantity Buy SHORT orders, ss + pending_quantity Sell SHORT orders)"
proof (induction orders arbitrary: bl sl bs ss)
  case Nil
  show ?case by (simp add: pending_quantity_def)
next
  case (Cons ord rest)
  show ?case
    by (simp add: Cons.IH Let_def) (simp add: pending_quantity_def)
qed

lemma listing_fetch: "fetch_open_orders listing_gateway fresh_world = ([resting_sell], fresh_world)"
  by (simp add: fetch_open_orders_def listing_gateway_def fresh_world_def)

text \<open>
  Claim C6, as stated, fails: the resync does not look at the reduce-only flag. A resting
  sell order on the long side whose flag is not set is no take-profit order in the
  classification on (side, position side, reduce-only), yet the resync counts its
  quantity in the sell-long counter.
\<close>

theorem resync_ignores_reduce_only:
  "counters (fst (check_orders_status listing_gateway stale_grid fresh_world)) = (0, 3, 0, 0) \<and>
   spec_counters (fst (fetch_open_orders listing_gateway fresh_world)) = (0, 0, 0, 0)"
  by (simp add: check_orders_status_def listing_fetch counters_def resting_sell_def
      spec_counters_def spec_pending_quantity_def)

text \<open>
  Claim C6, amended. The resync classifies each open order on its side and position side
  only (the reduce-only flag is not read) and overwrites all four counters: each counter
  becomes the total absolute original quantity of its class in the list that
  \<open>fetch_open_orders\<close> returned, whatever the counters were before, and no other field
  changes. When the ccxt call raises, that list is empty and the counters become 0.
\<close>

theorem resync_replaces_counters:
  "check_orders_status gw g w =
     (g\<lparr>buy_long_orders := pending_quantity Buy LONG (fst (fetch_open_orders gw w)),
        sell_long_orders := pending_quantity Sell LONG (fst (fetch_open_orders gw w)),
        buy_short_orders := pending_quantity Buy SHORT (fst (fetch_open_orders gw w)),
        sell_short_orders := pending_quantity Sell SHORT (fst (fetch_open_orders gw w))\<rparr>,
      snd (fetch_open_orders gw w)) \<and>
   counters (fst (check_orders_status gw g w)) =
     counters (fst (check_orders_status gw (init_grid_core cfg) w)) \<and>
   (\<forall>e x'. ccxt_fetch_open_orders gw (ext w) = (Inl e, x') \<longrightarrow>
      counters (fst (check_orders_status gw g w)) = (0, 0, 0, 0))"
  by (auto simp: check_orders_status_def count_orders_sums counters_def case_prod_beta
      fetch_open_orders_def pending_quantity_def)

theorem resync_replaces_counters_witness:
  "counters stale_grid = (7, 7, 7, 7) \<and>
   counters (fst (check_orders_status listing_gateway stale_grid fresh_world)) = (0, 3, 0, 0) \<and>
   long_position (fst (check_orders_status listing_gateway stale_grid fresh_world)) =
     long_position stale_grid"
  using resync_replaces_counters [of listing_gateway stale_grid fresh_world default_config]
  by (simp add: listing_fetch counters_def pending_quantity_def resting_sell_def stale_grid_def)

subsection \<open>The bot's emergency routine\<close>

text \<open>
  Claim C9. Whatever the exchange does during the cancellation and flatten attempts
  (every call may raise), \<open>GridTradingBot.trigger_emergency_protection\<close> ends with the
  bot asleep, the sleep start set to the time read at entry, and all four pending-order
  counters and both positions zero.
\<close>

theorem bot_emergency_always_sleeps_and_resets:
  "is_sleeping (fst (bot_trigger_emergency_protection gw cfg b t w)) \<and>
   sleep_start_time (fst (bot_trigger_emergency_protection gw cfg b t w)) = t \<and>
   counters (grid (fst (bot_trigger_emergency_protection gw cfg b t w))) = (0, 0, 0, 0) \<and>
   long_position (grid (fst (bot_trigger_emergency_protection gw cfg b t w))) = 0 \<and>
   short_position (grid (fst (bot_trigger_emergency_protection gw cfg b t w))) = 0"
  by (simp add: bot_trigger_emergency_protection_def Let_def case_prod_beta counters_def)

lemma rejecting_gateway_raises:
  "fst (cancel_order rejecting_gateway i fresh_world) = Inl OtherException"
  "fst (place_order rejecting_gateway default_interface sd (Some p) q ro ps Limit fresh_world)
     = Inl OtherException"
  "fst (get_position rejecting_gateway default_config fresh_world) = (40, 25)"
  by (simp_all add: cancel_order_def place_order_def submit_def rejecting_gateway_def
      fresh_world_def get_position_def step_position_def xrp_position_def get_ccxt_symbol_def
      default_config_def Let_def)

theorem bot_emergency_always_sleeps_and_resets_witness:
  "fst (cancel_order rejecting_gateway ''t1'' fresh_world) = Inl OtherException \<and>
   fst (place_order rejecting_gateway default_interface Sell (Some 0) 40 True (Some Long) Limit
          fresh_world) = Inl OtherException \<and>
   \<not> is_sleeping trading_bot \<and> long_position (grid trading_bot) = 40 \<and>
   is_sleeping
     (fst (bot_trigger_emergency_protection rejecting_gateway default_config trading_bot 500
             fresh_world)) \<and>
   sleep_start_time
     (fst (bot_trigger_emergency_protection rejecting_gateway default_config trading_bot 500
             fresh_world)) = 500 \<and>
   counters (grid
     (fst (bot_trigger_emergency_protection rejecting_gateway default_config trading_bot 500
             fresh_world))) = (0, 0, 0, 0) \<and>
   long_position (grid
     (fst (bot_trigger_emergency_protection failing_gateway default_config trading_bot 500
             fresh_world))) = 0 \<and>
   short_position (grid
     (fst (bot_trigger_emergency_protection failing_gateway default_config trading_bot 500
             fresh_world))) = 0"
  using bot_emergency_always_sleeps_and_resets
          [of rejecting_gateway default_config trading_bot 500 fresh_world]
        bot_emergency_always_sleeps_and_resets
          [of failing_gateway default_config trading_bot 500 fresh_world]
  by (simp add: rejecting_gateway_raises trading_bot_def trading_grid_def)

subsection \<open>Positions stay non-negative\<close>

lemma fill_keeps_nonneg:
  assumes "0 \<le> long_position g" "0 \<le> short_position g" "0 \<le> q"
  shows "0 \<le> long_position (update_position_and_orders g sd ps q)"
    and "0 \<le> short_position (update_position_and_orders g sd ps q)"
  using assms by (cases sd; simp add: update_position_and_orders_def)+

lemma pending_keeps_positions:
  "long_position (update_pending_orders g sd ps q a) = long_position g"
  "short_position (update_pending_orders g sd ps q a) = short_position g"
  by (cases a; simp add: update_pending_orders_def)+

lemma resync_keeps_positions:
  "long_position (fst (check_orders_status gw g w)) = long_position g"
  "short_position (fst (check_orders_status gw g w)) = short_position g"
  by (simp_all add: check_orders_status_def case_prod_beta)

lemma snapshot_fold_nonneg:
  assumes "list_all (long_size_ok cfg) positions" "0 \<le> fst acc" "0 \<le> snd acc"
  shows "0 \<le> fst (foldl (step_position cfg) acc positions) \<and>
         0 \<le> snd (foldl (step_position cfg) acc positions)"
  using assms
proof (induction positions arbitrary: acc)
  case Nil
  then show ?case by simp
next
  case (Cons p rest)
  have "0 \<le> fst (step_position cfg acc p) \<and> 0 \<le> snd (step_position cfg acc p)"
    using Cons.prems
    by (cases acc) (auto simp: step_position_def long_size_ok_def split: option.splits pside.splits)
  with Cons show ?case by simp
qed

lemma get_position_nonneg:
  assumes "reports_sizes gw cfg"
  shows "0 \<le> fst (fst (get_position gw cfg w)) \<and> 0 \<le> snd (fst (get_position gw cfg w))"
proof (cases "fetch_positions gw (ext w)")
  case (Pair r x')
  show ?thesis
  proof (cases r)
    case (Inl e)
    with Pair show ?thesis by (simp add: get_position_def)
  next
    case (Inr positions)
    from assms Pair Inr have "list_all (long_size_ok cfg) positions"
      by (auto simp: reports_sizes_def dest: spec [of _ "ext w"])
    from snapshot_fold_nonneg [OF this, of "(0, 0)"] Pair Inr show ?thesis
      by (simp add: get_position_def)
  qed
qed

lemma sync_position_nonneg:
  assumes "reports_sizes gw cfg"
  shows "0 \<le> long_position (fst (sync_position gw cfg g w)) \<and>
         0 \<le> short_position (fst (sync_position gw cfg g w))"
  using get_position_nonneg [OF assms, of w]
  by (simp add: sync_position_def case_prod_beta)

lemma handle_order_update_nonneg:
  assumes "reports_sizes gw cfg" "0 \<le> long_position g" "0 \<le> short_position g" "0 \<le> u_filled m"
  shows "0 \<le> long_position (fst (handle_order_update gw cfg g m w)) \<and>
         0 \<le> short_position (fst (handle_order_update gw cfg g m w))"
  using assms sync_position_nonneg [OF assms(1)]
        fill_keeps_nonneg [OF assms(2,3,4)]
  by (simp add: handle_order_update_def Let_def case_prod_beta pending_keeps_positions
      resync_keeps_positions)

lemma apply_event_nonneg:
  assumes "reports_sizes gw cfg" "0 \<le> long_position (fst st)" "0 \<le> short_position (fst st)"
    "0 \<le> filled_quantity e"
  shows "0 \<le> long_position (fst (apply_event gw cfg st e)) \<and>
         0 \<le> short_position (fst (apply_event gw cfg st e))"
proof (cases st)
  case (Pair g w)
  show ?thesis
  proof (cases e)
    case (Fill sd ps q)
    with Pair assms fill_keeps_nonneg [of g q sd ps] show ?thesis by simp
  next
    case (PendingChange sd ps q a)
    with Pair assms show ?thesis by (simp add: pending_keeps_positions)
  next
    case (OrderEvent m)
    with Pair assms handle_order_update_nonneg [of gw cfg g m w] show ?thesis by simp
  next
    case PositionSync
    with Pair assms sync_position_nonneg [of gw cfg g w] show ?thesis by simp
  qed
qed

lemma run_events_nonneg:
  assumes "reports_sizes gw cfg" "list_all (\<lambda>e. 0 \<le> filled_quantity e) events"
    "0 \<le> long_position (fst st)" "0 \<le> short_position (fst st)"
  shows "0 \<le> long_position (fst (run_events gw cfg st events)) \<and>
         0 \<le> short_position (fst (run_events gw cfg st events))"
  using assms(2-)
proof (induction events arbitrary: st)
  case Nil
  then show ?case by (simp add: run_events_def)
next
  case (Cons e rest)
  from Cons.prems apply_event_nonneg [OF assms(1), of st e]
  have "0 \<le> long_position (fst (apply_event gw cfg st e)) \<and>
        0 \<le> short_position (fst (apply_event gw cfg st e))" by simp
  with Cons.IH [of "apply_event gw cfg st e"] Cons.prems show ?case
    by (simp add: run_events_def)
qed

lemma fill_keeps_short_nonneg:
  assumes "0 \<le> short_position g" "0 \<le> q"
  shows "0 \<le> short_position (update_position_and_orders g sd ps q)"
  using assms by (cases sd; simp add: update_position_and_orders_def)

lemma snapshot_fold_short_nonneg:
  assumes "0 \<le> snd acc"
  shows "0 \<le> snd (foldl (step_position cfg) acc positions)"
  using assms
proof (induction positions arbitrary: acc)
  case Nil
  then show ?case by simp
next
  case (Cons p rest)
  have "0 \<le> snd (step_position cfg acc p)"
    using Cons.prems
    by (cases acc) (auto simp: step_position_def split: option.splits pside.splits)
  with Cons.IH show ?case by simp
qed

lemma sync_position_short_nonneg:
  "0 \<le> short_position (fst (sync_position gw cfg g w))"
proof (cases "fetch_positions gw (ext w)")
  case (Pair r x')
  show ?thesis
  proof (cases r)
    case (Inl e)
    with Pair show ?thesis by (simp add: sync_position_def get_position_def)
  next
    case (Inr positions)
    from snapshot_fold_short_nonneg [of "(0, 0)" cfg positions] Pair Inr show ?thesis
      by (simp add: sync_position_def get_position_def case_prod_beta)
  qed
qed

lemma handle_order_update_short_nonneg:
  assumes "0 \<le> short_position g" "0 \<le> u_filled m"
  shows "0 \<le> short_position (fst (handle_order_update gw cfg g m w))"
proof -
  let ?g1 = "update_position_and_orders g (u_side m) (u_position_side m) (u_filled m)"
  let ?c = "check_orders_status gw ?g1 w"
  have a: "0 \<le> short_position (fst (sync_position gw cfg (fst ?c) (snd ?c)))"
    by (rule sync_position_short_nonneg)
  have b: "0 \<le> short_position ?g1"
    by (rule fill_keeps_short_nonneg [OF assms])
  from a b assms(1) show ?thesis
    by (simp add: handle_order_update_def Let_def case_prod_beta pending_keeps_positions
        resync_keeps_positions)
qed

lemma apply_event_short_nonneg:
  assumes "0 \<le> short_position (fst st)" "0 \<le> filled_quantity e"
  shows "0 \<le> short_position (fst (apply_event gw cfg st e))"
proof (cases st)
  case (Pair g w)
  show ?thesis
  proof (cases e)
    case (Fill sd ps q)
    with Pair assms fill_keeps_short_nonneg [of g q sd ps] show ?thesis by simp
  next
    case (PendingChange sd ps q a)
    with Pair assms show ?thesis by (simp add: pending_keeps_positions)
  next
    case (OrderEvent m)
    with Pair assms handle_order_update_short_nonneg [of g m gw cfg w] show ?thesis by simp
  next
    case PositionSync
    with Pair sync_position_short_nonneg [of gw cfg g w] show ?thesis by simp
  qed
qed

lemma run_events_short_nonneg:
  assumes "list_all (\<lambda>e. 0 \<le> filled_quantity e) events" "0 \<le> short_position (fst st)"
  shows "0 \<le> short_position (fst (run_events gw cfg st events))"
  using assms
proof (induction events arbitrary: st)
  case Nil
  then show ?case by (simp add: run_events_def)
next
  case (Cons e rest)
  from Cons.prems apply_event_short_nonneg [of st e gw cfg]
  have "0 \<le> short_position (fst (apply_event gw cfg st e))" by simp
  with Cons.IH [of "apply_event gw cfg st e"] Cons.prems show ?case
    by (simp add: run_events_def)
qed

text \<open>
  Claim C8, as stated, fails for the full reconciliation: \<open>get_position\<close> stores the long
  size exactly as the exchange reports it (only the short size passes through \<open>abs\<close>).
  From the state at construction (both positions 0), one reconciliation against a
  snapshot that lists -5 on the long side leaves the long position at -5; the sequence
  contains no fill at all, so every filled quantity in it is non-negative.
\<close>

theorem reconciliation_stores_reported_long_size:
  "long_position (init_grid_core default_config) = 0 \<and>
   short_position (init_grid_core default_config) = 0 \<and>
   list_all (\<lambda>e. 0 \<le> filled_quantity e) [PositionSync] \<and>
   long_position (fst (run_events signed_gateway default_config
      (init_grid_core default_config, fresh_world) [PositionSync])) = - 5 \<and>
   long_position (fst (run_events signed_gateway default_config
      (init_grid_core default_config, fresh_world) [PositionSync])) < 0"
  by (simp add: run_events_def sync_position_def get_position_def step_position_def
      signed_gateway_def xrp_position_def get_ccxt_symbol_def default_config_def
      fresh_world_def init_grid_core_def)

text \<open>
  Claim C8, amended. Starting from non-negative positions (they are 0 at construction),
  after any sequence of incremental fill updates with non-negative filled quantities,
  order events and full reconciliations, the short position is non-negative, and the long
  position is non-negative provided every position snapshot of the exchange lists a
  non-negative size for the long side of the traded symbol (the reconciliation stores the
  short size as an absolute value and the long size as reported). A position-decreasing
  fill stores max(0, position - filled).
\<close>

theorem positions_never_negative:
  assumes "list_all (\<lambda>e. 0 \<le> filled_quantity e) events"
    and "0 \<le> long_position g" and "0 \<le> short_position g"
  shows "0 \<le> short_position (fst (run_events gw cfg (g, w) events)) \<and>
         (reports_sizes gw cfg \<longrightarrow> 0 \<le> long_position (fst (run_events gw cfg (g, w) events))) \<and>
         long_position (update_position_and_orders g Sell LONG q) = max 0 (long_position g - q) \<and>
         short_position (update_position_and_orders g Buy SHORT q) = max 0 (short_position g - q)"
proof -
  have s: "0 \<le> short_position (fst (run_events gw cfg (g, w) events))"
    using run_events_short_nonneg [OF assms(1), of "(g, w)" gw cfg] assms(3) by simp
  have l: "reports_sizes gw cfg \<longrightarrow> 0 \<le> long_position (fst (run_events gw cfg (g, w) events))"
    using run_events_nonneg [OF _ assms(1), of gw cfg "(g, w)"] assms(2,3) by simp
  from s l show ?thesis by (simp add: update_position_and_orders_def)
qed

lemma rejecting_gateway_reports_sizes: "reports_sizes rejecting_gateway default_config"
  by (simp add: reports_sizes_def rejecting_gateway_def long_size_ok_def xrp_position_def)

lemma demo_events_filled: "list_all (\<lambda>e. 0 \<le> filled_quantity e) demo_events"
  by (simp add: demo_events_def filled_message_def)

lemma demo_events_run:
  "long_position (fst (run_events rejecting_gateway default_config
      (init_grid_core default_config, fresh_world) demo_events)) = 40"
  "short_position (fst (run_events rejecting_gateway default_config
      (init_grid_core default_config, fresh_world) demo_events)) = 0"
  by (simp_all add: run_events_def demo_events_def filled_message_def handle_order_update_def
      update_position_and_orders_def check_orders_status_def fetch_open_orders_def
      sync_position_def get_position_def step_position_def rejecting_gateway_def
      xrp_position_def get_ccxt_symbol_def default_config_def fresh_world_def
      init_grid_core_def resting_sell_def Let_def)

theorem positions_never_negative_witness:
  "reports_sizes rejecting_gateway default_config \<and>
   list_all (\<lambda>e. 0 \<le> filled_quantity e) demo_events \<and>
   long_position (init_grid_core default_config) = 0 \<and>
   short_position (init_grid_core default_config) = 0 \<and>
   long_position (fst (run_events rejecting_gateway default_config
      (init_grid_core default_config, fresh_world) demo_events)) = 40 \<and>
   short_position (fst (run_events rejecting_gateway default_config
      (init_grid_core default_config, fresh_world) demo_events)) = 0 \<and>
   0 \<le> short_position (fst (run_events signed_gateway default_config
      (init_grid_core default_config, fresh_world) [PositionSync])) \<and>
   long_position (update_position_and_orders (init_grid_core default_config) Sell LONG 8) = 0"
proof -
  have g0: "0 \<le> long_position (init_grid_core default_config)"
    "0 \<le> short_position (init_grid_core default_config)"
    by (simp_all add: init_grid_core_def)
  have g1: "long_position (init_grid_core default_config) = 0"
    "short_position (init_grid_core default_config) = 0"
    by (simp_all add: init_grid_core_def)
  have e1: "list_all (\<lambda>e. 0 \<le> filled_quantity e) [PositionSync]" by simp
  from positions_never_negative
         [OF demo_events_filled g0, of rejecting_gateway default_config fresh_world 8]
       positions_never_negative
         [OF e1 g0, of signed_gateway default_config fresh_world 8]
  show ?thesis
    by (simp add: rejecting_gateway_reports_sizes demo_events_filled demo_events_run g1)
qed

subsection \<open>Orders placed by the adjustment pass\<close>

lemma sent_fetch_open_orders [simp]: "sent (snd (fetch_open_orders gw w)) = sent w"
  by (simp add: fetch_open_orders_def split: prod.splits sum.splits)

lemma sent_cancel_order [simp]: "sent (snd (cancel_order gw i w)) = sent w"
  by (simp add: cancel_order_def split: prod.splits sum.splits exn.splits)

lemma sent_cancel_matching [simp]: "sent (snd (cancel_matching gw ps orders w)) = sent w"
proof (induction orders arbitrary: w)
  case Nil
  show ?case by simp
next
  case (Cons ord rest)
  show ?case
  proof (cases "side_order ps ord")
    case False
    with Cons show ?thesis by simp
  next
    case True
    obtain r w1 where c: "cancel_order gw (oid ord) w = (r, w1)" by (cases "cancel_order gw (oid ord) w")
    have s: "sent w1 = sent w" using sent_cancel_order [of gw "oid ord" w] c by simp
    show ?thesis
    proof (cases r)
      case (Inl e)
      with True c s show ?thesis by simp
    next
      case (Inr u)
      with True c s Cons.IH [of w1] show ?thesis by simp
    qed
  qed
qed

lemma sent_check_orders_status [simp]: "sent (snd (check_orders_status gw g w)) = sent w"
  by (simp add: check_orders_status_def case_prod_beta)

lemma sent_cancel_orders_for_side [simp]:
  "sent (snd (cancel_orders_for_side gw g ps w)) = sent w"
proof -
  obtain orders w1 where f: "fetch_open_orders gw w = (orders, w1)"
    by (cases "fetch_open_orders gw w")
  have s1: "sent w1 = sent w" using sent_fetch_open_orders [of gw w] f by simp
  obtain r w2 where c: "cancel_matching gw ps orders w1 = (r, w2)"
    by (cases "cancel_matching gw ps orders w1")
  have s2: "sent w2 = sent w1" using sent_cancel_matching [of gw ps orders w1] c by simp
  show ?thesis
    using f c s1 s2 by (cases r) (simp_all add: cancel_orders_for_side_def)
qed

lemma sent_submit: "sent (snd (submit gw req w)) = sent w @ [req]"
  by (simp add: submit_def case_prod_beta)

lemma place_order_sent:
  "\<exists>new. sent (snd (place_order gw ei sd p q ro (Some ps) ot w)) = sent w @ new \<and>
         length new \<le> 1 \<and>
         list_all (\<lambda>r. for_side ps r \<and> r_reduce_only r = ro \<and> r_side r = sd \<and> r_type r = ot) new"
proof -
  let ?req = "\<lparr>r_type = ot, r_side = sd,
                r_quantity = max (py_round q (amount_precision ei)) (min_order_amount ei),
                r_price = (if ot = Market then None
                           else (case p of None \<Rightarrow> None
                                 | Some v \<Rightarrow> Some (py_round v (price_precision ei)))),
                r_reduce_only = ro, r_position_side = Some (upper ps)\<rparr>"
  have "sent (snd (place_order gw ei sd p q ro (Some ps) ot w)) = sent w \<or>
        sent (snd (place_order gw ei sd p q ro (Some ps) ot w)) = sent w @ [?req]"
    using sent_submit [of gw ?req w]
    by (auto simp: place_order_def Let_def split: prod.splits sum.splits exn.splits)
  then show ?thesis
    by (auto simp: for_side_def)
qed

lemma place_take_profit_order_sent:
  "\<exists>new. sent (snd (place_take_profit_order gw ei ps p q w)) = sent w @ new \<and>
         length new \<le> 1 \<and> list_all (is_closing ps) new"
proof -
  obtain orders w1 where f: "fetch_open_orders gw w = (orders, w1)"
    by (cases "fetch_open_orders gw w")
  have s1: "sent w1 = sent w" using sent_fetch_open_orders [of gw w] f by simp
  let ?req = "\<lparr>r_type = Limit, r_side = closing_side ps,
                r_quantity = max (py_round q (amount_precision ei)) (min_order_amount ei),
                r_price = Some (py_round p (price_precision ei)), r_reduce_only = True,
                r_position_side = Some (upper ps)\<rparr>"
  have "sent (snd (place_take_profit_order gw ei ps p q w)) = sent w \<or>
        sent (snd (place_take_profit_order gw ei ps p q w)) = sent w @ [?req]"
    using sent_submit [of gw ?req w1] f s1
    by (auto simp: place_take_profit_order_def Let_def split: prod.splits sum.splits exn.splits)
  then show ?thesis
    by (auto simp: is_closing_def)
qed

lemma is_closing_for_side: "is_closing ps r \<Longrightarrow> for_side ps r"
  by (simp add: is_closing_def for_side_def)

lemma check_and_reduce_positions_sent:
  "\<exists>new. sent (check_and_reduce_positions gw ei cfg g w) = sent w @ new \<and>
         length (filter (for_side Long) new) \<le> 1 \<and>
         length (filter (for_side Short) new) \<le> 1 \<and>
         list_all (is_closing Long) (filter (for_side Long) new) \<and>
         list_all (is_closing Short) (filter (for_side Short) new) \<and>
         (\<not> (long_position g > POSITION_THRESHOLD cfg \<and> short_position g > POSITION_THRESHOLD cfg)
            \<longrightarrow> new = [])"
proof (cases "long_position g > POSITION_THRESHOLD cfg \<and> short_position g > POSITION_THRESHOLD cfg
              \<and> min (long_position g) (short_position g) * (1 / 2) > 0")
  case False
  then have "check_and_reduce_positions gw ei cfg g w = w"
    by (auto simp: check_and_reduce_positions_def Let_def)
  then show ?thesis by simp
next
  case True
  let ?q = "min (long_position g) (short_position g) * (1 / 2)"
  let ?w1 = "snd (place_order gw ei Sell (Some (latest_price g * (999 / 1000))) ?q True
                    (Some Long) Limit w)"
  let ?w2 = "snd (place_order gw ei Buy (Some (latest_price g * (1001 / 1000))) ?q True
                    (Some Short) Limit ?w1)"
  obtain n1 where n1: "sent ?w1 = sent w @ n1" "length n1 \<le> 1"
    "list_all (\<lambda>r. for_side Long r \<and> r_reduce_only r = True \<and> r_side r = Sell \<and> r_type r = Limit) n1"
    using place_order_sent [of gw ei Sell _ ?q True Long Limit w] by blast
  obtain n2 where n2: "sent ?w2 = sent ?w1 @ n2" "length n2 \<le> 1"
    "list_all (\<lambda>r. for_side Short r \<and> r_reduce_only r = True \<and> r_side r = Buy \<and> r_type r = Limit) n2"
    using place_order_sent [of gw ei Buy _ ?q True Short Limit ?w1] by blast
  have c1: "list_all (is_closing Long) n1" "filter (for_side Short) n1 = []"
           "filter (for_side Long) n1 = n1"
    using n1(3) by (auto simp: list_all_iff is_closing_def for_side_def closing_side_def upper_def
        filter_empty_conv filter_id_conv)
  have c2: "list_all (is_closing Short) n2" "filter (for_side Long) n2 = []"
           "filter (for_side Short) n2 = n2"
    using n2(3) by (auto simp: list_all_iff is_closing_def for_side_def closing_side_def upper_def
        filter_empty_conv filter_id_conv)
  have "check_and_reduce_positions gw ei cfg g w = ?w1 \<or>
        check_and_reduce_positions gw ei cfg g w = ?w2"
    using True by (auto simp: check_and_reduce_positions_def Let_def split: prod.splits sum.splits)
  then show ?thesis
  proof
    assume "check_and_reduce_positions gw ei cfg g w = ?w1"
    with n1 c1 True show ?thesis by auto
  next
    assume "check_and_reduce_positions gw ei cfg g w = ?w2"
    with n1 n2 c1 c2 True show ?thesis by auto
  qed
qed

lemma initialize_long_orders_sent:
  "\<exists>new. sent (snd (snd (initialize_long_orders gw ei cfg g now w))) = sent w @ new \<and>
         list_all (for_side Long) new"
proof -
  let ?c = "cancel_orders_for_side gw g Long w"
  obtain n where n: "sent (snd (place_order gw ei Buy (best_bid_price (fst ?c))
                       (INITIAL_QUANTITY cfg) False (Some Long) Limit (snd ?c))) = sent (snd ?c) @ n"
    "list_all (\<lambda>r. for_side Long r \<and> r_reduce_only r = False \<and> r_side r = Buy \<and> r_type r = Limit) n"
    using place_order_sent [of gw ei Buy _ _ False Long Limit "snd ?c"] by blast
  have "list_all (for_side Long) n" using n(2) by (simp add: list_all_iff)
  with n(1) show ?thesis
    by (auto simp: initialize_long_orders_def case_prod_beta split: sum.splits)
qed

lemma initialize_short_orders_sent:
  "\<exists>new. sent (snd (snd (initialize_short_orders gw ei cfg g now w))) = sent w @ new \<and>
         list_all (for_side Short) new"
proof -
  let ?c = "cancel_orders_for_side gw g Short w"
  obtain n where n: "sent (snd (place_order gw ei Sell (best_ask_price (fst ?c))
                       (INITIAL_QUANTITY cfg) False (Some Short) Limit (snd ?c))) = sent (snd ?c) @ n"
    "list_all (\<lambda>r. for_side Short r \<and> r_reduce_only r = False \<and> r_side r = Sell \<and> r_type r = Limit) n"
    using place_order_sent [of gw ei Sell _ _ False Short Limit "snd ?c"] by blast
  have "list_all (for_side Short) n" using n(2) by (simp add: list_all_iff)
  with n(1) show ?thesis
    by (auto simp: initialize_short_orders_def case_prod_beta split: sum.splits)
qed

lemma place_long_orders_sent:
  "\<exists>new. sent (snd (place_long_orders gw ei cfg g p w)) = sent w @ new \<and>
         list_all (for_side Long) new \<and>
         (long_position g > POSITION_THRESHOLD cfg \<longrightarrow>
            length new \<le> 1 \<and> list_all (is_closing Long) new)"
proof -
  let ?g1 = "get_take_profit_quantity cfg g (long_position g) Long"
  have g1: "long_position ?g1 = long_position g"
    by (simp add: get_take_profit_quantity_def)
  show ?thesis
  proof (cases "long_position g > 0")
    case False
    with g1 show ?thesis by (simp add: place_long_orders_def Let_def)
  next
    case pos: True
    show ?thesis
    proof (cases "long_position g > POSITION_THRESHOLD cfg")
      case True
      let ?price = "latest_price ?g1 * ((long_position ?g1 / max (short_position ?g1) 1) / 100 + 1)"
      obtain n where n:
        "sent (snd (place_take_profit_order gw ei Long ?price (long_initial_quantity ?g1) w))
           = sent w @ n" "length n \<le> 1" "list_all (is_closing Long) n"
        using place_take_profit_order_sent [of gw ei Long ?price _ w] by blast
      have "list_all (for_side Long) n"
        using n(3) by (auto simp: list_all_iff is_closing_for_side)
      with n pos True g1 show ?thesis
        by (auto simp: place_long_orders_def Let_def case_prod_beta)
    next
      case False
      let ?g2 = "update_mid_price ?g1 Long p"
      let ?c = "cancel_orders_for_side gw ?g2 Long w"
      let ?t = "place_take_profit_order gw ei Long (upper_price_long (fst ?c))
                  (long_initial_quantity (fst ?c)) (snd ?c)"
      let ?o = "place_order gw ei Buy (Some (lower_price_long (fst ?c)))
                  (long_initial_quantity (fst ?c)) False (Some Long) Limit (snd ?t)"
      obtain n1 where n1: "sent (snd ?t) = sent (snd ?c) @ n1" "list_all (is_closing Long) n1"
        using place_take_profit_order_sent [of gw ei Long _ _ "snd ?c"] by blast
      obtain n2 where n2: "sent (snd ?o) = sent (snd ?t) @ n2"
        "list_all (\<lambda>r. for_side Long r \<and> r_reduce_only r = False \<and> r_side r = Buy \<and> r_type r = Limit) n2"
        using place_order_sent [of gw ei Buy _ _ False Long Limit "snd ?t"] by blast
      have f1: "list_all (for_side Long) n1"
        using n1(2) by (auto simp: list_all_iff is_closing_for_side)
      have f2: "list_all (for_side Long) n2" using n2(2) by (simp add: list_all_iff)
      have "snd (place_long_orders gw ei cfg g p w) = snd ?t \<or>
            snd (place_long_orders gw ei cfg g p w) = snd ?o"
        using pos False g1
        by (auto simp: place_long_orders_def Let_def case_prod_beta split: sum.splits)
      then show ?thesis
      proof
        assume "snd (place_long_orders gw ei cfg g p w) = snd ?t"
        with n1 f1 False show ?thesis by simp
      next
        assume "snd (place_long_orders gw ei cfg g p w) = snd ?o"
        with n1 n2 f1 f2 False show ?thesis by simp
      qed
    qed
  qed
qed

lemma place_short_orders_sent:
  "\<exists>new. sent (snd (place_short_orders gw ei cfg g p w)) = sent w @ new \<and>
         list_all (for_side Short) new \<and>
         (short_position g > POSITION_THRESHOLD cfg \<longrightarrow>
            length new \<le> 1 \<and> list_all (is_closing Short) new)"
proof -
  let ?g1 = "get_take_profit_quantity cfg g (short_position g) Short"
  have g1: "short_position ?g1 = short_position g"
    by (simp add: get_take_profit_quantity_def)
  show ?thesis
  proof (cases "short_position g > 0")
    case False
    with g1 show ?thesis by (simp add: place_short_orders_def Let_def)
  next
    case pos: True
    show ?thesis
    proof (cases "short_position g > POSITION_THRESHOLD cfg")
      case True
      let ?price = "latest_price ?g1 / ((short_position ?g1 / max (long_position ?g1) 1) / 100 + 1)"
      obtain n where n:
        "sent (snd (place_take_profit_order gw ei Short ?price (short_initial_quantity ?g1) w))
           = sent w @ n" "length n \<le> 1" "list_all (is_closing Short) n"
        using place_take_profit_order_sent [of gw ei Short ?price _ w] by blast
      have "list_all (for_side Short) n"
        using n(3) by (auto simp: list_all_iff is_closing_for_side)
      with n pos True g1 show ?thesis
        by (auto simp: place_short_orders_def Let_def case_prod_beta)
    next
      case False
      let ?g2 = "update_mid_price ?g1 Short p"
      let ?c = "cancel_orders_for_side gw ?g2 Short w"
      let ?t = "place_take_profit_order gw ei Short (lower_price_short (fst ?c))
                  (short_initial_quantity (fst ?c)) (snd ?c)"
      let ?o = "place_order gw ei Sell (Some (upper_price_short (fst ?c)))
                  (short_initial_quantity (fst ?c)) False (Some Short) Limit (snd ?t)"
      obtain n1 where n1: "sent (snd ?t) = sent (snd ?c) @ n1" "list_all (is_closing Short) n1"
        using place_take_profit_order_sent [of gw ei Short _ _ "snd ?c"] by blast
      obtain n2 where n2: "sent (snd ?o) = sent (snd ?t) @ n2"
        "list_all (\<lambda>r. for_side Short r \<and> r_reduce_only r = False \<and> r_side r = Sell \<and> r_type r = Limit) n2"
        using place_order_sent [of gw ei Sell _ _ False Short Limit "snd ?t"] by blast
      have f1: "list_all (for_side Short) n1"
        using n1(2) by (auto simp: list_all_iff is_closing_for_side)
      have f2: "list_all (for_side Short) n2" using n2(2) by (simp add: list_all_iff)
      have "snd (place_short_orders gw ei cfg g p w) = snd ?t \<or>
            snd (place_short_orders gw ei cfg g p w) = snd ?o"
        using pos False g1
        by (auto simp: place_short_orders_def Let_def case_prod_beta split: sum.splits)
      then show ?thesis
      proof
        assume "snd (place_short_orders gw ei cfg g p w) = snd ?t"
        with n1 f1 False show ?thesis by simp
      next
        assume "snd (place_short_orders gw ei cfg g p w) = snd ?o"
        with n1 n2 f1 f2 False show ?thesis by simp
      qed
    qed
  qed
qed

lemma cancel_orders_for_side_positions [simp]:
  "long_position (fst (cancel_orders_for_side gw g ps w)) = long_position g"
  "short_position (fst (cancel_orders_for_side gw g ps w)) = short_position g"
  by (simp_all add: cancel_orders_for_side_def case_prod_beta resync_keeps_positions
      split: sum.splits)

lemma place_long_orders_positions [simp]:
  "long_position (fst (place_long_orders gw ei cfg g p w)) = long_position g"
  "short_position (fst (place_long_orders gw ei cfg g p w)) = short_position g"
  by (simp_all add: place_long_orders_def Let_def case_prod_beta get_take_profit_quantity_def
      update_mid_price_def split: sum.splits)

lemma place_short_orders_positions [simp]:
  "long_position (fst (place_short_orders gw ei cfg g p w)) = long_position g"
  "short_position (fst (place_short_orders gw ei cfg g p w)) = short_position g"
  by (simp_all add: place_short_orders_def Let_def case_prod_beta get_take_profit_quantity_def
      update_mid_price_def split: sum.splits)

lemma adjust_long_side_positions [simp]:
  "long_position (fst (snd (adjust_long_side gw ei cfg g now w))) = long_position g"
  "short_position (fst (snd (adjust_long_side gw ei cfg g now w))) = short_position g"
  by (simp_all add: adjust_long_side_def initialize_long_orders_def Let_def case_prod_beta
      resync_keeps_positions split: sum.splits)

lemma adjust_long_side_sent:
  "\<exists>new. sent (snd (snd (adjust_long_side gw ei cfg g now w))) = sent w @ new \<and>
         list_all (for_side Long) new \<and>
         (long_position g \<noteq> 0 \<and> long_position g > POSITION_THRESHOLD cfg \<longrightarrow>
            length new \<le> 1 \<and> list_all (is_closing Long) new)"
proof (cases "long_position g = 0")
  case True
  with initialize_long_orders_sent [of gw ei cfg g now w] show ?thesis
    by (simp add: adjust_long_side_def)
next
  case nz: False
  let ?s = "check_orders_status gw g w"
  let ?a = "place_long_orders gw ei cfg (fst ?s) (latest_price (fst ?s)) (snd ?s)"
  let ?b = "place_long_orders gw ei cfg g (latest_price g) w"
  obtain na where na: "sent (snd ?a) = sent (snd ?s) @ na" "list_all (for_side Long) na"
    using place_long_orders_sent [of gw ei cfg "fst ?s" _ "snd ?s"] by blast
  obtain nb where nb: "sent (snd ?b) = sent w @ nb" "list_all (for_side Long) nb"
    "long_position g > POSITION_THRESHOLD cfg \<longrightarrow> length nb \<le> 1 \<and> list_all (is_closing Long) nb"
    using place_long_orders_sent [of gw ei cfg g _ w] by blast
  have "snd (snd (adjust_long_side gw ei cfg g now w)) = w \<or>
        (long_position g < POSITION_THRESHOLD cfg \<and>
         snd (snd (adjust_long_side gw ei cfg g now w)) = snd ?a) \<or>
        snd (snd (adjust_long_side gw ei cfg g now w)) = snd ?b"
    using nz by (auto simp: adjust_long_side_def Let_def case_prod_beta)
  then show ?thesis
  proof (elim disjE conjE)
    assume "snd (snd (adjust_long_side gw ei cfg g now w)) = w"
    then show ?thesis by simp
  next
    assume "long_position g < POSITION_THRESHOLD cfg"
      "snd (snd (adjust_long_side gw ei cfg g now w)) = snd ?a"
    with na show ?thesis by simp
  next
    assume "snd (snd (adjust_long_side gw ei cfg g now w)) = snd ?b"
    with nb show ?thesis by simp
  qed
qed

lemma adjust_short_side_sent:
  "\<exists>new. sent (snd (snd (adjust_short_side gw ei cfg g now w))) = sent w @ new \<and>
         list_all (for_side Short) new \<and>
         (short_position g \<noteq> 0 \<and> short_position g > POSITION_THRESHOLD cfg \<longrightarrow>
            length new \<le> 1 \<and> list_all (is_closing Short) new)"
proof (cases "short_position g = 0")
  case True
  with initialize_short_orders_sent [of gw ei cfg g now w] show ?thesis
    by (simp add: adjust_short_side_def)
next
  case nz: False
  let ?s = "check_orders_status gw g w"
  let ?a = "place_short_orders gw ei cfg (fst ?s) (latest_price (fst ?s)) (snd ?s)"
  let ?b = "place_short_orders gw ei cfg g (latest_price g) w"
  obtain na where na: "sent (snd ?a) = sent (snd ?s) @ na" "list_all (for_side Short) na"
    using place_short_orders_sent [of gw ei cfg "fst ?s" _ "snd ?s"] by blast
  obtain nb where nb: "sent (snd ?b) = sent w @ nb" "list_all (for_side Short) nb"
    "short_position g > POSITION_THRESHOLD cfg \<longrightarrow> length nb \<le> 1 \<and> list_all (is_closing Short) nb"
    using place_short_orders_sent [of gw ei cfg g _ w] by blast
  have "snd (snd (adjust_short_side gw ei cfg g now w)) = w \<or>
        (short_position g < POSITION_THRESHOLD cfg \<and>
         snd (snd (adjust_short_side gw ei cfg g now w)) = snd ?a) \<or>
        snd (snd (adjust_short_side gw ei cfg g now w)) = snd ?b"
    using nz by (auto simp: adjust_short_side_def Let_def case_prod_beta)
  then show ?thesis
  proof (elim disjE conjE)
    assume "snd (snd (adjust_short_side gw ei cfg g now w)) = w"
    then show ?thesis by simp
  next
    assume "short_position g < POSITION_THRESHOLD cfg"
      "snd (snd (adjust_short_side gw ei cfg g now w)) = snd ?a"
    with na show ?thesis by simp
  next
    assume "snd (snd (adjust_short_side gw ei cfg g now w)) = snd ?b"
    with nb show ?thesis by simp
  qed
qed

lemma sides_disjoint:
  "list_all (for_side Short) xs \<Longrightarrow> filter (for_side Long) xs = []"
  "list_all (for_side Long) xs \<Longrightarrow> filter (for_side Short) xs = []"
  "list_all (for_side ps) xs \<Longrightarrow> filter (for_side ps) xs = xs"
  by (auto simp: list_all_iff for_side_def upper_def filter_empty_conv filter_id_conv)

lemma adjust_grid_strategy_sent:
  "\<exists>rv nl ns.
     sent (snd (snd (adjust_grid_strategy gw ei cfg g now w))) = sent w @ rv @ nl @ ns \<and>
     length (filter (for_side Long) rv) \<le> 1 \<and> length (filter (for_side Short) rv) \<le> 1 \<and>
     list_all (is_closing Long) (filter (for_side Long) rv) \<and>
     list_all (is_closing Short) (filter (for_side Short) rv) \<and>
     (\<not> (long_position g > POSITION_THRESHOLD cfg \<and> short_position g > POSITION_THRESHOLD cfg)
        \<longrightarrow> rv = []) \<and>
     list_all (for_side Long) nl \<and>
     (long_position g \<noteq> 0 \<and> long_position g > POSITION_THRESHOLD cfg \<longrightarrow>
        length nl \<le> 1 \<and> list_all (is_closing Long) nl) \<and>
     list_all (for_side Short) ns \<and>
     (short_position g \<noteq> 0 \<and> short_position g > POSITION_THRESHOLD cfg \<longrightarrow>
        length ns \<le> 1 \<and> list_all (is_closing Short) ns)"
proof -
  let ?w0 = "check_and_reduce_positions gw ei cfg g w"
  let ?l = "adjust_long_side gw ei cfg g now ?w0"
  let ?s = "adjust_short_side gw ei cfg (fst (snd ?l)) now (snd (snd ?l))"
  obtain rv where rv: "sent ?w0 = sent w @ rv"
    "length (filter (for_side Long) rv) \<le> 1" "length (filter (for_side Short) rv) \<le> 1"
    "list_all (is_closing Long) (filter (for_side Long) rv)"
    "list_all (is_closing Short) (filter (for_side Short) rv)"
    "\<not> (long_position g > POSITION_THRESHOLD cfg \<and> short_position g > POSITION_THRESHOLD cfg)
       \<longrightarrow> rv = []"
    using check_and_reduce_positions_sent [of gw ei cfg g w] by blast
  obtain nl where nl: "sent (snd (snd ?l)) = sent ?w0 @ nl" "list_all (for_side Long) nl"
    "long_position g \<noteq> 0 \<and> long_position g > POSITION_THRESHOLD cfg \<longrightarrow>
       length nl \<le> 1 \<and> list_all (is_closing Long) nl"
    using adjust_long_side_sent [of gw ei cfg g now ?w0] by blast
  obtain ns where ns: "sent (snd (snd ?s)) = sent (snd (snd ?l)) @ ns"
    "list_all (for_side Short) ns"
    "short_position g \<noteq> 0 \<and> short_position g > POSITION_THRESHOLD cfg \<longrightarrow>
       length ns \<le> 1 \<and> list_all (is_closing Short) ns"
    using adjust_short_side_sent [of gw ei cfg "fst (snd ?l)" now "snd (snd ?l)"] by auto
  have "snd (snd (adjust_grid_strategy gw ei cfg g now w)) = snd (snd ?l) \<or>
        snd (snd (adjust_grid_strategy gw ei cfg g now w)) = snd (snd ?s)"
    by (auto simp: adjust_grid_strategy_def Let_def split: prod.splits sum.splits)
  then show ?thesis
  proof
    assume "snd (snd (adjust_grid_strategy gw ei cfg g now w)) = snd (snd ?l)"
    with rv nl have "sent (snd (snd (adjust_grid_strategy gw ei cfg g now w)))
                       = sent w @ rv @ nl @ []" by simp
    with rv nl show ?thesis by (intro exI [of _ rv] exI [of _ nl] exI [of _ "[]"]) simp
  next
    assume "snd (snd (adjust_grid_strategy gw ei cfg g now w)) = snd (snd ?s)"
    with rv nl ns have "sent (snd (snd (adjust_grid_strategy gw ei cfg g now w)))
                          = sent w @ rv @ nl @ ns" by simp
    with rv nl ns show ?thesis by (intro exI [of _ rv] exI [of _ nl] exI [of _ ns]) simp
  qed
qed

lemma both_heavy_valve:
  "check_and_reduce_positions accepting_gateway default_interface default_config both_heavy
     fresh_world = \<lparr>ext = (), sent = [valve_sell, valve_buy]\<rparr>"
  by (simp add: check_and_reduce_positions_def place_order_def submit_def Let_def
      accepting_gateway_def default_interface_def default_config_def both_heavy_def
      init_grid_core_def fresh_world_def valve_sell_def valve_buy_def upper_def
      py_round_def round_half_even_def)

lemma both_heavy_long_side:
  "adjust_long_side accepting_gateway default_interface default_config both_heavy 100
     \<lparr>ext = (), sent = [valve_sell, valve_buy]\<rparr>
   = (Inr (), both_heavy\<lparr>long_initial_quantity := 6\<rparr>,
      \<lparr>ext = (), sent = [valve_sell, valve_buy, long_take_profit (202 / 100)]\<rparr>)"
  by (simp add: adjust_long_side_def place_long_orders_def place_take_profit_order_def
      fetch_open_orders_def get_take_profit_quantity_def submit_def Let_def
      accepting_gateway_def default_interface_def default_config_def both_heavy_def
      init_grid_core_def long_take_profit_def upper_def closing_side_def
      py_round_def round_half_even_def)

lemma both_heavy_short_side:
  "adjust_short_side accepting_gateway default_interface default_config
     (both_heavy\<lparr>long_initial_quantity := 6\<rparr>) 100
     \<lparr>ext = (), sent = [valve_sell, valve_buy, long_take_profit (202 / 100)]\<rparr>
   = (Inr (), both_heavy\<lparr>long_initial_quantity := 6, short_initial_quantity := 6\<rparr>,
      \<lparr>ext = (),
       sent = [valve_sell, valve_buy, long_take_profit (202 / 100), short_take_profit]\<rparr>)"
  by (simp add: adjust_short_side_def place_short_orders_def place_take_profit_order_def
      fetch_open_orders_def get_take_profit_quantity_def submit_def Let_def
      accepting_gateway_def default_interface_def default_config_def both_heavy_def
      init_grid_core_def short_take_profit_def upper_def closing_side_def
      py_round_def round_half_even_def)

lemma both_heavy_result:
  "adjust_grid_strategy accepting_gateway default_interface default_config both_heavy 100
     fresh_world
   = (Inr (), both_heavy\<lparr>long_initial_quantity := 6, short_initial_quantity := 6\<rparr>,
      \<lparr>ext = (),
       sent = [valve_sell, valve_buy, long_take_profit (202 / 100), short_take_profit]\<rparr>)"
  by (simp only: adjust_grid_strategy_def Let_def both_heavy_valve both_heavy_long_side
      both_heavy_short_side prod.case sum.case)

lemma both_heavy_pass:
  "placed fresh_world
     (snd (snd (adjust_grid_strategy accepting_gateway default_interface default_config
                  both_heavy 100 fresh_world)))
   = [valve_sell, valve_buy, long_take_profit (202 / 100), short_take_profit]"
  unfolding both_heavy_result by (simp add: placed_def fresh_world_def)

lemma long_heavy_result:
  "adjust_grid_strategy accepting_gateway default_interface default_config long_heavy 100
     fresh_world
   = (Inr (), long_heavy\<lparr>long_initial_quantity := 6\<rparr>,
      \<lparr>ext = (), sent = [long_take_profit (212 / 100)]\<rparr>)"
  by (simp add: adjust_grid_strategy_def check_and_reduce_positions_def
      adjust_long_side_def adjust_short_side_def place_long_orders_def
      place_take_profit_order_def fetch_open_orders_def get_take_profit_quantity_def
      submit_def Let_def accepting_gateway_def default_interface_def default_config_def
      long_heavy_def init_grid_core_def long_take_profit_def upper_def closing_side_def
      py_round_def round_half_even_def fresh_world_def)

lemma long_heavy_pass:
  "placed fresh_world
     (snd (snd (adjust_grid_strategy accepting_gateway default_interface default_config
                  long_heavy 100 fresh_world)))
   = [long_take_profit (212 / 100)]"
  unfolding long_heavy_result by (simp add: placed_def fresh_world_def)

lemma request_sides:
  "for_side Long valve_sell" "\<not> for_side Long valve_buy"
  "for_side Long (long_take_profit p)" "\<not> for_side Long short_take_profit"
  "\<not> for_side Short valve_sell" "for_side Short valve_buy"
  "\<not> for_side Short (long_take_profit p)" "for_side Short short_take_profit"
  by (simp_all add: for_side_def upper_def valve_sell_def valve_buy_def long_take_profit_def
      short_take_profit_def)

text \<open>
  Claim C7, as stated, fails in its last part: a side in conservative mode can receive
  more than a single take-profit order in one adjustment pass. With both positions at 600
  (threshold 500) and nothing resting, the pass places two orders on the long side: the
  risk valve's reduce-only sell of 300 at 0.1 percent below the price, and then the
  conservative take-profit of 6 at 1 percent above it.
\<close>

theorem conservative_side_gets_two_orders:
  "position_of Long both_heavy = 600 \<and> position_of Long both_heavy \<noteq> 0 \<and>
   POSITION_THRESHOLD default_config < position_of Long both_heavy \<and>
   filter (for_side Long)
     (placed fresh_world
        (snd (snd (adjust_grid_strategy accepting_gateway default_interface default_config
                     both_heavy 100 fresh_world))))
   = [valve_sell, long_take_profit (202 / 100)] \<and>
   r_quantity valve_sell = 300 \<and> r_price valve_sell = Some (1998 / 1000) \<and>
   r_quantity (long_take_profit (202 / 100)) = 6"
  by (simp add: both_heavy_pass request_sides)
     (simp add: position_of_def both_heavy_def default_config_def valve_sell_def
        long_take_profit_def)

text \<open>
  Claim C7, amended. For every side and every adjustment pass, the grid engine places no
  replenishment (non-reduce-only) order for a side whose position is non-zero and exceeds
  the position threshold: every order of the pass on that side is a reduce-only limit
  order that closes the side. The side's own step (conservative mode) places at most one
  order, the take-profit; the only other order the pass can place on that side is the
  risk valve's reduction order, and only when the opposite position exceeds the threshold
  too, so the side receives at most two orders, and at most one otherwise.
\<close>

theorem no_replenishment_above_threshold:
  assumes "position_of ps g \<noteq> 0" and "position_of ps g > POSITION_THRESHOLD cfg"
  shows "list_all (is_closing ps)
           (filter (for_side ps)
              (placed w (snd (snd (adjust_grid_strategy gw ei cfg g now w))))) \<and>
         list_all r_reduce_only
           (filter (for_side ps)
              (placed w (snd (snd (adjust_grid_strategy gw ei cfg g now w))))) \<and>
         length (filter (for_side ps)
                   (placed w (snd (snd (adjust_grid_strategy gw ei cfg g now w))))) \<le> 2 \<and>
         (\<not> position_of (other_side ps) g > POSITION_THRESHOLD cfg \<longrightarrow>
            length (filter (for_side ps)
                      (placed w (snd (snd (adjust_grid_strategy gw ei cfg g now w))))) \<le> 1) \<and>
         length (placed w (snd (snd (adjust_side ps gw ei cfg g now w)))) \<le> 1 \<and>
         list_all (is_closing ps) (placed w (snd (snd (adjust_side ps gw ei cfg g now w))))"
proof -
  obtain rv nl ns where p:
    "sent (snd (snd (adjust_grid_strategy gw ei cfg g now w))) = sent w @ rv @ nl @ ns"
    "length (filter (for_side Long) rv) \<le> 1" "length (filter (for_side Short) rv) \<le> 1"
    "list_all (is_closing Long) (filter (for_side Long) rv)"
    "list_all (is_closing Short) (filter (for_side Short) rv)"
    "\<not> (long_position g > POSITION_THRESHOLD cfg \<and> short_position g > POSITION_THRESHOLD cfg)
       \<longrightarrow> rv = []"
    "list_all (for_side Long) nl"
    "long_position g \<noteq> 0 \<and> long_position g > POSITION_THRESHOLD cfg \<longrightarrow>
       length nl \<le> 1 \<and> list_all (is_closing Long) nl"
    "list_all (for_side Short) ns"
    "short_position g \<noteq> 0 \<and> short_position g > POSITION_THRESHOLD cfg \<longrightarrow>
       length ns \<le> 1 \<and> list_all (is_closing Short) ns"
    using adjust_grid_strategy_sent [of gw ei cfg g now w] by blast
  have pl: "placed w (snd (snd (adjust_grid_strategy gw ei cfg g now w))) = rv @ nl @ ns"
    using p(1) by (simp add: placed_def)
  have closing_reduce: "\<And>xs s. list_all (is_closing s) xs \<Longrightarrow> list_all r_reduce_only xs"
    by (auto simp: list_all_iff is_closing_def)
  show ?thesis
  proof (cases ps)
    case Long
    obtain m where m: "sent (snd (snd (adjust_long_side gw ei cfg g now w))) = sent w @ m"
      "long_position g \<noteq> 0 \<and> long_position g > POSITION_THRESHOLD cfg \<longrightarrow>
         length m \<le> 1 \<and> list_all (is_closing Long) m"
      using adjust_long_side_sent [of gw ei cfg g now w] by blast
    have own: "placed w (snd (snd (adjust_side Long gw ei cfg g now w))) = m"
      using m(1) by (simp add: placed_def adjust_side_def)
    have f: "filter (for_side Long) (rv @ nl @ ns) = filter (for_side Long) rv @ nl"
      using p(7,9) by (simp add: sides_disjoint)
    from assms Long have h: "long_position g \<noteq> 0" "long_position g > POSITION_THRESHOLD cfg"
      by (simp_all add: position_of_def)
    with p(8) m(2) have nl: "length nl \<le> 1" "list_all (is_closing Long) nl"
      and mm: "length m \<le> 1" "list_all (is_closing Long) m" by simp_all
    have c: "list_all (is_closing Long) (filter (for_side Long) rv @ nl)"
      using p(4) nl(2) by simp
    have "\<not> position_of (other_side ps) g > POSITION_THRESHOLD cfg \<longrightarrow> rv = []"
      using p(6) Long by (simp add: position_of_def other_side_def)
    with c closing_reduce [OF c] p(2) nl(1) mm show ?thesis
      unfolding pl own f Long by auto
  next
    case Short
    obtain m where m: "sent (snd (snd (adjust_short_side gw ei cfg g now w))) = sent w @ m"
      "short_position g \<noteq> 0 \<and> short_position g > POSITION_THRESHOLD cfg \<longrightarrow>
         length m \<le> 1 \<and> list_all (is_closing Short) m"
      using adjust_short_side_sent [of gw ei cfg g now w] by blast
    have own: "placed w (snd (snd (adjust_side Short gw ei cfg g now w))) = m"
      using m(1) by (simp add: placed_def adjust_side_def)
    have f: "filter (for_side Short) (rv @ nl @ ns) = filter (for_side Short) rv @ ns"
      using p(7,9) by (simp add: sides_disjoint)
    from assms Short have h: "short_position g \<noteq> 0" "short_position g > POSITION_THRESHOLD cfg"
      by (simp_all add: position_of_def)
    with p(10) m(2) have ns: "length ns \<le> 1" "list_all (is_closing Short) ns"
      and mm: "length m \<le> 1" "list_all (is_closing Short) m" by simp_all
    have c: "list_all (is_closing Short) (filter (for_side Short) rv @ ns)"
      using p(5) ns(2) by simp
    have "\<not> position_of (other_side ps) g > POSITION_THRESHOLD cfg \<longrightarrow> rv = []"
      using p(6) Short by (simp add: position_of_def other_side_def)
    with c closing_reduce [OF c] p(3) ns(1) mm show ?thesis
      unfolding pl own f Short by auto
  qed
qed

theorem no_replenishment_above_threshold_witness:
  "position_of Long long_heavy = 600 \<and> POSITION_THRESHOLD default_config = 500 \<and>
   position_of (other_side Long) long_heavy = 100 \<and>
   placed fresh_world
     (snd (snd (adjust_grid_strategy accepting_gateway default_interface default_config
                  long_heavy 100 fresh_world)))
   = [long_take_profit (212 / 100)] \<and>
   is_closing Long (long_take_profit (212 / 100)) \<and>
   r_reduce_only (long_take_profit (212 / 100)) \<and>
   list_all (is_closing Short)
     (filter (for_side Short)
        (placed fresh_world
           (snd (snd (adjust_grid_strategy accepting_gateway default_interface default_config
                        both_heavy 100 fresh_world))))) \<and>
   filter (for_side Short)
     (placed fresh_world
        (snd (snd (adjust_grid_strategy accepting_gateway default_interface default_config
                     both_heavy 100 fresh_world))))
   = [valve_buy, short_take_profit]"
proof -
  have l: "position_of Long long_heavy \<noteq> 0"
    "position_of Long long_heavy > POSITION_THRESHOLD default_config"
    by (simp_all add: position_of_def long_heavy_def default_config_def)
  have s: "position_of Short both_heavy \<noteq> 0"
    "position_of Short both_heavy > POSITION_THRESHOLD default_config"
    by (simp_all add: position_of_def both_heavy_def default_config_def)
  have v: "position_of Long long_heavy = 600" "POSITION_THRESHOLD default_config = 500"
    "position_of (other_side Long) long_heavy = 100"
    by (simp_all add: position_of_def other_side_def long_heavy_def default_config_def)
  from no_replenishment_above_threshold
         [OF l, of fresh_world accepting_gateway default_interface 100]
       no_replenishment_above_threshold
         [OF s, of fresh_world accepting_gateway default_interface 100]
  show ?thesis
    unfolding long_heavy_pass both_heavy_pass by (simp add: request_sides v)
qed

subsection \<open>The bot's sleep gate\<close>

lemma upt_1_15: "[1 ..< 15] = [1, 2, 3, 4, 5, 6, 7, 8, 9, 10, 11, 12, 13, 14 :: nat]"
  by code_simp

lemma choppy_atr:
  "calculate_atr (choppy_protection\<lparr>price_buffer := choppy_prices @ [(86400, 2)]\<rparr>) 14 =
     (1 / 100,
      choppy_protection\<lparr>price_buffer := choppy_prices @ [(86400, 2)],
                         last_atr_values := [1 / 100]\<rparr>)"
  by (simp add: calculate_atr_def choppy_protection_def choppy_prices_def
      init_protection_def Let_def upt_1_15)

lemma choppy_fields:
  "price_buffer choppy_protection = choppy_prices" "max_buffer_size choppy_protection = 100"
  "length choppy_prices = 15" "baseline_atr choppy_protection = Some (2 / 1000)"
  "current_trend_direction choppy_protection = Neutral"
  "trend_detection_window (config choppy_protection) = 20"
  "extreme_threshold (config choppy_protection) = 11"
  "atr_recovery_multiplier (config choppy_protection) = 3 / 2"
  by (simp_all add: choppy_protection_def choppy_prices_def init_protection_def
      default_protection_config_def)

lemma choppy_tick:
  "atr_value (fst (update_market_data choppy_protection 2 86400)) = 1 / 100"
  "\<not> is_extreme (fst (update_market_data choppy_protection 2 86400))"
  "\<not> is_atr_recovered choppy_protection (1 / 100)"
  by (simp_all add: update_market_data_def push_bounded_def choppy_fields choppy_atr
      detect_trend_change_def Let_def is_atr_recovered_def truthy_def)

lemma reconcile_keeps_sleep:
  "is_sleeping (fst (reconcile_and_adjust gw cfg signal b t w)) = is_sleeping b"
  "sleep_start_time (fst (reconcile_and_adjust gw cfg signal b t w)) = sleep_start_time b"
  by (simp_all add: reconcile_and_adjust_def split: prod.splits option.splits)

lemma ticker_still_asleep:
  assumes "valid_quote bid" "valid_quote ask" "1 \<le> t - last_ticker_update_time b"
    "is_sleeping b" "t - sleep_start_time b < 24 * 3600"
  shows "is_sleeping (fst (handle_ticker_update gw cfg signal b bid ask t w))"
    and "sleep_start_time (fst (handle_ticker_update gw cfg signal b bid ask t w))
           = sleep_start_time b"
    and "extreme_protection (fst (handle_ticker_update gw cfg signal b bid ask t w))
           = extreme_protection b"
    and "snd (handle_ticker_update gw cfg signal b bid ask t w) = w"
  using assms by (simp_all add: handle_ticker_update_def Let_def)

lemma ticker_wakes_after_a_day:
  assumes "valid_quote bid" "valid_quote ask" "1 \<le> t - last_ticker_update_time b"
    "is_sleeping b" "24 * 3600 \<le> t - sleep_start_time b"
  shows "is_sleeping (fst (handle_ticker_update gw cfg signal b bid ask t w)) \<longleftrightarrow>
           is_extreme (fst (update_market_data (extreme_protection b)
                              ((the bid + the ask) / 2) t))"
    and "is_sleeping (fst (handle_ticker_update gw cfg signal b bid ask t w)) \<longrightarrow>
           sleep_start_time (fst (handle_ticker_update gw cfg signal b bid ask t w)) = t"
  using assms
  by (simp_all add: handle_ticker_update_def Let_def case_prod_beta reconcile_keeps_sleep
      bot_trigger_emergency_protection_def)

lemma sleeping_bot_fields:
  "is_sleeping sleeping_bot" "sleep_start_time sleeping_bot = 0"
  "last_ticker_update_time sleeping_bot = 0"
  "extreme_protection sleeping_bot = choppy_protection"
  by (simp_all add: sleeping_bot_def)

text \<open>
  Claim C1, as stated, fails for the hibernation the ticker handler enforces. The bot was
  put to sleep at time 0; its protection module has baseline ATR 0.002, and the tick at
  time 86400 (price 2.00 after a buffer alternating between 2.01 and 2.00) has a current
  ATR of 0.01, above 0.002 times 1.5. The elapsed-time condition holds, the volatility
  condition fails, and the handler ends the sleep.
\<close>

theorem bot_wakes_without_recovery:
  "is_sleeping sleeping_bot \<and> sleep_start_time sleeping_bot = 0 \<and>
   baseline_atr (extreme_protection sleeping_bot) = Some (2 / 1000) \<and>
   atr_recovery_multiplier (config (extreme_protection sleeping_bot)) = 3 / 2 \<and>
   atr_value (fst (update_market_data (extreme_protection sleeping_bot) 2 86400)) = 1 / 100 \<and>
   \<not> is_atr_recovered (extreme_protection sleeping_bot) (1 / 100) \<and>
   \<not> is_sleeping
       (fst (handle_ticker_update accepting_gateway default_config no_signal sleeping_bot
               (Some (19999 / 10000)) (Some (20001 / 10000)) 86400 fresh_world))"
proof -
  have "\<not> is_sleeping
          (fst (handle_ticker_update accepting_gateway default_config no_signal sleeping_bot
                  (Some (19999 / 10000)) (Some (20001 / 10000)) 86400 fresh_world))"
    using ticker_wakes_after_a_day(1)
            [of "Some (19999 / 10000)" "Some (20001 / 10000)" 86400 sleeping_bot
                accepting_gateway default_config no_signal fresh_world]
    by (simp add: valid_quote_def sleeping_bot_fields choppy_tick)
  then show ?thesis
    by (simp add: sleeping_bot_fields choppy_fields choppy_tick)
qed

text \<open>
  Claim C1, amended. In the protection module, \<open>_check_hibernation_end\<close> ends hibernation
  only when both conditions hold: the elapsed time since the hibernation start is at
  least the configured hours and the current ATR is at most baseline times the recovery
  multiplier; in every evaluation where either fails it returns false and leaves the
  state, so the protection flag and the hibernation start, unchanged. The sleep state of
  the bot itself, which is what the ticker handler consults, depends on elapsed time
  only: a processed tick less than 24 hours after the sleep began leaves the bot asleep
  and the sleep start, the protection state and the exchange untouched; a processed tick
  at or after 24 hours ends that sleep whatever the volatility is (the bot is asleep
  afterwards only when the same tick is flagged extreme and starts a new sleep at the
  tick's time).
\<close>

theorem hibernation_end_conditions:
  "(fst (check_hibernation_end s ms now) \<longrightarrow>
      (\<exists>start base. hibernation_start_time s = Some start \<and>
         hibernation_hours (config s) \<le> (now - start) / 3600 \<and>
         baseline_atr s = Some base \<and>
         atr_value ms \<le> base * atr_recovery_multiplier (config s))) \<and>
   (\<not> fst (check_hibernation_end s ms now) \<longrightarrow> check_hibernation_end s ms now = (False, s)) \<and>
   (valid_quote bid \<and> valid_quote ask \<and> 1 \<le> t - last_ticker_update_time b \<and> is_sleeping b \<longrightarrow>
      (t - sleep_start_time b < 24 * 3600 \<longrightarrow>
         is_sleeping (fst (handle_ticker_update gw cfg signal b bid ask t w)) \<and>
         sleep_start_time (fst (handle_ticker_update gw cfg signal b bid ask t w))
           = sleep_start_time b \<and>
         extreme_protection (fst (handle_ticker_update gw cfg signal b bid ask t w))
           = extreme_protection b \<and>
         snd (handle_ticker_update gw cfg signal b bid ask t w) = w) \<and>
      (24 * 3600 \<le> t - sleep_start_time b \<longrightarrow>
         (is_sleeping (fst (handle_ticker_update gw cfg signal b bid ask t w)) \<longleftrightarrow>
            is_extreme (fst (update_market_data (extreme_protection b)
                               ((the bid + the ask) / 2) t))) \<and>
         (is_sleeping (fst (handle_ticker_update gw cfg signal b bid ask t w)) \<longrightarrow>
            sleep_start_time (fst (handle_ticker_update gw cfg signal b bid ask t w)) = t)))"
proof -
  have a: "fst (check_hibernation_end s ms now) \<longrightarrow>
      (\<exists>start base. hibernation_start_time s = Some start \<and>
         hibernation_hours (config s) \<le> (now - start) / 3600 \<and>
         baseline_atr s = Some base \<and>
         atr_value ms \<le> base * atr_recovery_multiplier (config s))"
    by (auto simp: check_hibernation_end_ends_iff is_atr_recovered_iff)
  have b: "\<not> fst (check_hibernation_end s ms now) \<longrightarrow> check_hibernation_end s ms now = (False, s)"
    using check_hibernation_end_unchanged by blast
  from a b ticker_still_asleep [of bid ask t b gw cfg signal w]
       ticker_wakes_after_a_day [of bid ask t b gw cfg signal w]
  show ?thesis by blast
qed

theorem hibernation_end_conditions_witness:
  "check_hibernation_end asleep_with_baseline (quiet_state (1 / 100)) 360000
     = (False, asleep_with_baseline) \<and>
   check_hibernation_end asleep_with_baseline (quiet_state (3 / 1000)) 3600
     = (False, asleep_with_baseline) \<and>
   fst (check_hibernation_end asleep_with_baseline (quiet_state (3 / 1000)) 86400) \<and>
   is_sleeping
     (fst (handle_ticker_update accepting_gateway default_config no_signal sleeping_bot
             (Some (19999 / 10000)) (Some (20001 / 10000)) 86399 fresh_world)) \<and>
   \<not> is_sleeping
     (fst (handle_ticker_update accepting_gateway default_config no_signal sleeping_bot
             (Some (19999 / 10000)) (Some (20001 / 10000)) 86400 fresh_world))"
proof -
  have m: "\<not> fst (check_hibernation_end asleep_with_baseline (quiet_state (1 / 100)) 360000)"
    "\<not> fst (check_hibernation_end asleep_with_baseline (quiet_state (3 / 1000)) 3600)"
    "fst (check_hibernation_end asleep_with_baseline (quiet_state (3 / 1000)) 86400)"
    by (simp_all add: check_hibernation_end_def asleep_with_baseline_def init_protection_def
        default_protection_config_def quiet_state_def is_atr_recovered_def truthy_def Let_def)
  have q: "valid_quote (Some (19999 / 10000))" "valid_quote (Some (20001 / 10000))"
    by (simp_all add: valid_quote_def)
  from hibernation_end_conditions
         [of asleep_with_baseline "quiet_state (1 / 100)" 360000
             "Some (19999 / 10000)" "Some (20001 / 10000)" 86399 sleeping_bot
             accepting_gateway default_config no_signal fresh_world]
       hibernation_end_conditions
         [of asleep_with_baseline "quiet_state (3 / 1000)" 3600
             "Some (19999 / 10000)" "Some (20001 / 10000)" 86400 sleeping_bot
             accepting_gateway default_config no_signal fresh_world]
       m q
  show ?thesis
    by (simp add: sleeping_bot_fields choppy_tick)
qed

end
